theory Spec2Isabelle
  imports Main "HOL-Library.Multiset"
begin

section \<open>Values shared by the two screens\<close>

text \<open>
  A JavaScript string is a sequence of UTF-16 code units. Literals of the program are
  written with \<open>lit\<close>; the few letters outside ASCII in the Portuguese wording are
  given by their code unit.
\<close>

type_synonym js_string = "nat list"

definition lit :: "string \<Rightarrow> js_string" where
  "lit cs = map of_char cs"

text \<open>An \<open>Error\<close> object; the screens only ever read its \<open>message\<close>.\<close>

datatype js_error = Error (message: js_string)

text \<open>The argument object of \<open>toast({ title, description, variant })\<close>.\<close>

record toast =
  title :: js_string
  description :: js_string
  variant :: "js_string option"

text \<open>
  Every call that a screen issues against the hosted database, in the order issued.
  The three contact lookups of each role, the history query, the mark-read update and
  the insert of a sent message.
\<close>

datatype request =
    SelectEnrollmentsOfStudent js_string
  | SelectClassesIn "js_string list"
  | SelectProfessionalsIn "js_string list"
  | SelectClassesOfProfessional js_string
  | SelectEnrollmentsIn "js_string list"
  | SelectStudentsIn "js_string list"
  | SelectMessagesBetween js_string js_string
  | UpdateMarkRead js_string js_string
  | InsertMessage js_string js_string js_string

section \<open>MyClasses.tsx: the notification toggle\<close>

text \<open>
  The part of the component state that \<open>toggleNotifications\<close> touches: the object
  \<open>notifications\<close> (class id to boolean), the toasts shown so far and the backend calls
  issued so far.
\<close>

record my_classes =
  notifications :: "js_string \<rightharpoonup> bool"
  mc_toasts :: "toast list"
  mc_requests :: "request list"

text \<open>\<open>!prev[classId]\<close>: a missing key reads as \<open>undefined\<close>, whose negation is \<open>true\<close>.\<close>

definition js_not_lookup :: "(js_string \<rightharpoonup> bool) \<Rightarrow> js_string \<Rightarrow> bool" where
  "js_not_lookup prev classId = (case prev classId of None \<Rightarrow> True | Some v \<Rightarrow> \<not> v)"

text \<open>\<open>notifications[classItem.id] ? ... : ...\<close>: how the view reads the flag.\<close>

definition flag_on :: "(js_string \<rightharpoonup> bool) \<Rightarrow> js_string \<Rightarrow> bool" where
  "flag_on m classId = (case m classId of None \<Rightarrow> False | Some v \<Rightarrow> v)"

definition toast_enabled :: toast where
  "toast_enabled =
     \<lparr>title = lit ''Notifica'' @ [0xE7, 0xF5] @ lit ''es ativadas'',
      description = lit ''Voc'' @ [0xEA] @ lit '' receber'' @ [0xE1] @ lit '' avisos desta turma'',
      variant = None\<rparr>"

definition toast_disabled :: toast where
  "toast_disabled =
     \<lparr>title = lit ''Notifica'' @ [0xE7, 0xF5] @ lit ''es desativadas'',
      description = lit ''Voc'' @ [0xEA] @ lit '' n'' @ [0xE3] @ lit ''o receber'' @ [0xE1]
        @ lit '' mais avisos desta turma'',
      variant = None\<rparr>"

definition toggleNotifications :: "js_string \<Rightarrow> my_classes \<Rightarrow> my_classes" where
  "toggleNotifications classId s =
     (let prev = notifications s;
          newState = prev(classId \<mapsto> js_not_lookup prev classId)
      in s\<lparr>notifications := newState,
            mc_toasts := mc_toasts s @
              [if flag_on newState classId then toast_enabled else toast_disabled]\<rparr>)"

section \<open>PrivateChat.tsx: data\<close>

datatype role = Student | Professional

text \<open>The interface \<open>Contact\<close>.\<close>

record contact =
  contact_id :: js_string
  name :: js_string
  contact_type :: role
  avatar_url :: "js_string option"

text \<open>
  A row of \<open>private_messages\<close> (the type \<open>Message\<close>). The creation time is an instant,
  counted in milliseconds; the database orders by it.
\<close>

record message =
  message_id :: js_string
  sender_id :: js_string
  recipient_id :: js_string
  content :: js_string
  read :: bool
  created_at :: nat

text \<open>Rows of \<open>enrollments\<close>, of \<open>classes\<close>, and of \<open>professionals\<close> and \<open>students\<close>.\<close>

record enrollment =
  student_id :: js_string
  class_id :: js_string
  status :: js_string

record class_row =
  cls_id :: js_string
  professional_id :: js_string

record profile =
  user_id :: js_string
  full_name :: js_string
  p_avatar_url :: "js_string option"

text \<open>
  What awaiting a query gives: the promise rejects (\<open>Threw\<close>), or it resolves to the
  object \<open>{ data, error }\<close>, either of which may be \<open>null\<close>.
\<close>

datatype 'a response = Threw js_error | Resp "'a option" "js_error option"

text \<open>
  The hosted database as the screen sees it: one answer for each query the screen can
  build. The arguments are the values the source interpolates into the query.
\<close>

record backend =
  enrollments_of_student :: "js_string \<Rightarrow> enrollment list response"
  classes_in :: "js_string list \<Rightarrow> class_row list response"
  professionals_in :: "js_string list \<Rightarrow> profile list response"
  classes_of_professional :: "js_string \<Rightarrow> class_row list response"
  enrollments_in :: "js_string list \<Rightarrow> enrollment list response"
  students_in :: "js_string list \<Rightarrow> profile list response"
  messages_between :: "js_string \<Rightarrow> js_string \<Rightarrow> message list response"
  mark_read :: "js_string \<Rightarrow> js_string \<Rightarrow> unit response"
  insert_message :: "js_string \<Rightarrow> js_string \<Rightarrow> js_string \<Rightarrow> unit response"

text \<open>
  A realtime channel as \<open>subscribeToMessages\<close> builds it: its name, the equality
  filter on \<open>sender_id\<close>, and the \<open>currentUserId\<close> its callback closes over.
  \<open>chan_no\<close> stands for the identity of the channel object.
\<close>

record channel =
  chan_no :: nat
  topic :: js_string
  filter_sender_id :: js_string
  cb_currentUserId :: js_string

text \<open>The teardown closure \<open>() => { supabase.removeChannel(channel) }\<close>.\<close>

datatype cleanup = RemoveChannel channel

text \<open>
  The component state of \<open>PrivateChat\<close> (its \<open>useState\<close> cells), followed by what the
  component has done to the outside: toasts shown, \<open>console.error\<close> lines, backend calls
  issued, and the channels the realtime client holds open.
\<close>

record chat =
  currentUserId :: js_string
  userType :: "role option"
  contacts :: "contact list"
  selectedContact :: "contact option"
  messages :: "message list"
  newMessage :: js_string
  loading :: bool
  sending :: bool
  toasts :: "toast list"
  console :: "(js_string \<times> js_error) list"
  requests :: "request list"
  channels :: "channel list"
  channels_opened :: nat

definition issue :: "request \<Rightarrow> chat \<Rightarrow> chat" where
  "issue r s = s\<lparr>requests := requests s @ [r]\<rparr>"

definition console_error :: "js_string \<Rightarrow> js_error \<Rightarrow> chat \<Rightarrow> chat" where
  "console_error label e s = s\<lparr>console := console s @ [(label, e)]\<rparr>"

definition show_toast :: "toast \<Rightarrow> chat \<Rightarrow> chat" where
  "show_toast t s = s\<lparr>toasts := toasts s @ [t]\<rparr>"

definition setContacts :: "contact list \<Rightarrow> chat \<Rightarrow> chat" where
  "setContacts cs s = s\<lparr>contacts := cs\<rparr>"

definition setMessages :: "message list \<Rightarrow> chat \<Rightarrow> chat" where
  "setMessages ms s = s\<lparr>messages := ms\<rparr>"

text \<open>
  \<open>const { data, error } = await query; if (error) throw error;\<close> : the value is the
  thrown error, or \<open>data\<close>.
\<close>

definition await_data :: "'a response \<Rightarrow> js_error + 'a option" where
  "await_data r =
     (case r of
        Threw e \<Rightarrow> Inl e
      | Resp d err \<Rightarrow> (case err of Some e \<Rightarrow> Inl e | None \<Rightarrow> Inr d))"

text \<open>\<open>[...new Set(xs)]\<close>: the elements in order of first occurrence.\<close>

definition spread_new_Set :: "'a list \<Rightarrow> 'a list" where
  "spread_new_Set xs = rev (remdups (rev xs))"

section \<open>PrivateChat.tsx: the contact resolver\<close>

definition professional_contact :: "profile \<Rightarrow> contact" where
  "professional_contact prof =
     \<lparr>contact_id = user_id prof, name = full_name prof,
      contact_type = Professional, avatar_url = p_avatar_url prof\<rparr>"

definition student_contact :: "profile \<Rightarrow> contact" where
  "student_contact student =
     \<lparr>contact_id = user_id student, name = full_name student,
      contact_type = Student, avatar_url = p_avatar_url student\<rparr>"

text \<open>
  The body of the \<open>try\<close> block of \<open>fetchStudentContacts\<close>. The first component of the
  result is \<open>Inl e\<close> when the block throws \<open>e\<close>.
\<close>

definition fetchStudentContacts_try ::
  "backend \<Rightarrow> js_string \<Rightarrow> chat \<Rightarrow> (js_error + unit) \<times> chat" where
  "fetchStudentContacts_try b userId s =
     (let s1 = issue (SelectEnrollmentsOfStudent userId) s in
      case await_data (enrollments_of_student b userId) of
        Inl enrollError \<Rightarrow> (Inl enrollError, s1)
      | Inr enrollments \<Rightarrow>
          (case enrollments of
             None \<Rightarrow> (Inr (), setContacts [] s1)
           | Some [] \<Rightarrow> (Inr (), setContacts [] s1)
           | Some (e # es) \<Rightarrow>
               (let classIds = map class_id (e # es);
                    s2 = issue (SelectClassesIn classIds) s1 in
                case await_data (classes_in b classIds) of
                  Inl classError \<Rightarrow> (Inl classError, s2)
                | Inr classes \<Rightarrow>
                    (let professionalIds = spread_new_Set
                           (case classes of None \<Rightarrow> [] | Some cs \<Rightarrow> map professional_id cs) in
                     if professionalIds = [] then (Inr (), setContacts [] s2)
                     else
                       (let s3 = issue (SelectProfessionalsIn professionalIds) s2 in
                        case await_data (professionals_in b professionalIds) of
                          Inl profError \<Rightarrow> (Inl profError, s3)
                        | Inr professionals \<Rightarrow>
                            (Inr (), setContacts
                               (case professionals of
                                  None \<Rightarrow> []
                                | Some ps \<Rightarrow> map professional_contact ps) s3))))))"

text \<open>The \<open>catch\<close> block shared by both resolvers: log, then \<open>setContacts([])\<close>.\<close>

definition catch_contacts :: "(js_error + unit) \<times> chat \<Rightarrow> (js_error + unit) \<times> chat" where
  "catch_contacts r =
     (case r of
        (Inl error, s) \<Rightarrow>
          (Inr (), setContacts [] (console_error (lit ''Erro ao buscar contatos:'') error s))
      | (Inr u, s) \<Rightarrow> (Inr u, s))"

definition fetchStudentContacts ::
  "backend \<Rightarrow> js_string \<Rightarrow> chat \<Rightarrow> (js_error + unit) \<times> chat" where
  "fetchStudentContacts b userId s = catch_contacts (fetchStudentContacts_try b userId s)"

definition fetchProfessionalContacts_try ::
  "backend \<Rightarrow> js_string \<Rightarrow> chat \<Rightarrow> (js_error + unit) \<times> chat" where
  "fetchProfessionalContacts_try b professionalUserId s =
     (let s1 = issue (SelectClassesOfProfessional professionalUserId) s in
      case await_data (classes_of_professional b professionalUserId) of
        Inl classesError \<Rightarrow> (Inl classesError, s1)
      | Inr classes \<Rightarrow>
          (case classes of
             None \<Rightarrow> (Inr (), setContacts [] s1)
           | Some [] \<Rightarrow> (Inr (), setContacts [] s1)
           | Some (c # cs) \<Rightarrow>
               (let classIds = map cls_id (c # cs);
                    s2 = issue (SelectEnrollmentsIn classIds) s1 in
                case await_data (enrollments_in b classIds) of
                  Inl error \<Rightarrow> (Inl error, s2)
                | Inr enrollments \<Rightarrow>
                    (let studentIds = spread_new_Set
                           (case enrollments of None \<Rightarrow> [] | Some es \<Rightarrow> map student_id es) in
                     if studentIds = [] then (Inr (), setContacts [] s2)
                     else
                       (let s3 = issue (SelectStudentsIn studentIds) s2 in
                        case await_data (students_in b studentIds) of
                          Inl studentsError \<Rightarrow> (Inl studentsError, s3)
                        | Inr students \<Rightarrow>
                            (Inr (), setContacts
                               (case students of
                                  None \<Rightarrow> []
                                | Some ss \<Rightarrow> map student_contact ss) s3))))))"

definition fetchProfessionalContacts ::
  "backend \<Rightarrow> js_string \<Rightarrow> chat \<Rightarrow> (js_error + unit) \<times> chat" where
  "fetchProfessionalContacts b professionalUserId s =
     catch_contacts (fetchProfessionalContacts_try b professionalUserId s)"

section \<open>PrivateChat.tsx: the chat session\<close>

text \<open>
  \<open>fetchMessages\<close>. It has no \<open>try\<close>: a rejected \<open>await\<close> rejects the promise the
  function returns (\<open>Inl\<close>). The answer to the mark-read update is never looked at.
\<close>

definition fetchMessages :: "backend \<Rightarrow> chat \<Rightarrow> (js_error + unit) \<times> chat" where
  "fetchMessages b s =
     (case selectedContact s of
        None \<Rightarrow> (Inr (), s)
      | Some c \<Rightarrow>
          (let s1 = issue (SelectMessagesBetween (currentUserId s) (contact_id c)) s in
           case messages_between b (currentUserId s) (contact_id c) of
             Threw e \<Rightarrow> (Inl e, s1)
           | Resp data error \<Rightarrow>
               (case error of
                  Some e \<Rightarrow> (Inr (), console_error (lit ''Error fetching messages:'') e s1)
                | None \<Rightarrow>
                    (let s2 = setMessages (case data of None \<Rightarrow> [] | Some ms \<Rightarrow> ms) s1 in
                     case data of
                       Some (m # ms) \<Rightarrow>
                         (let s3 = issue (UpdateMarkRead (currentUserId s) (contact_id c)) s2 in
                          case mark_read b (currentUserId s) (contact_id c) of
                            Threw e \<Rightarrow> (Inl e, s3)
                          | Resp d err \<Rightarrow> (Inr (), s3))
                     | _ \<Rightarrow> (Inr (), s2)))))"

text \<open>
  \<open>subscribeToMessages\<close>: opens the channel and returns the teardown closure, or returns
  \<open>undefined\<close> when no contact is selected.
\<close>

definition subscribeToMessages :: "chat \<Rightarrow> cleanup option \<times> chat" where
  "subscribeToMessages s =
     (case selectedContact s of
        None \<Rightarrow> (None, s)
      | Some c \<Rightarrow>
          (let channel =
                 \<lparr>chan_no = channels_opened s,
                  topic = lit ''private-chat-'' @ currentUserId s @ lit ''-'' @ contact_id c,
                  filter_sender_id = contact_id c,
                  cb_currentUserId = currentUserId s\<rparr>
           in (Some (RemoveChannel channel),
               s\<lparr>channels := channels s @ [channel],
                 channels_opened := Suc (channels_opened s)\<rparr>)))"

text \<open>The callback given to \<open>.on(...)\<close>, run with the inserted row \<open>payload.new\<close>.\<close>

definition on_insert :: "channel \<Rightarrow> message \<Rightarrow> chat \<Rightarrow> chat" where
  "on_insert ch new s =
     (if recipient_id new = cb_currentUserId ch then setMessages (messages s @ [new]) s else s)"

text \<open>
  The effect \<open>useEffect(() => { if (selectedContact) { fetchMessages();
  subscribeToMessages(); } }, [selectedContact])\<close>. Neither call's value is used and the
  arrow function has no \<open>return\<close>: the effect hands React no teardown (\<open>None\<close>).
  \<open>fetchMessages\<close> is run to its end before the subscription is opened; the two write
  different parts of the state.
\<close>

definition selectedContact_effect :: "backend \<Rightarrow> chat \<Rightarrow> cleanup option \<times> chat" where
  "selectedContact_effect b s =
     (case selectedContact s of
        None \<Rightarrow> (None, s)
      | Some c \<Rightarrow>
          (let s1 = snd (fetchMessages b s);
               s2 = snd (subscribeToMessages s1)
           in (None, s2)))"

text \<open>
  \<open>String.prototype.trim\<close> removes the code units of ECMAScript's WhiteSpace and
  LineTerminator productions from both ends.
\<close>

definition is_white_space :: "nat \<Rightarrow> bool" where
  "is_white_space c =
     (c \<in> {0x9, 0xA, 0xB, 0xC, 0xD, 0x20, 0xA0, 0x1680, 0x2028, 0x2029, 0x202F, 0x205F,
            0x3000, 0xFEFF}
      \<or> (0x2000 \<le> c \<and> c \<le> 0x200A))"

definition trim :: "js_string \<Rightarrow> js_string" where
  "trim t = rev (dropWhile is_white_space (rev (dropWhile is_white_space t)))"

text \<open>
  \<open>handleSendMessage\<close> is cut at its \<open>await\<close>. What the rest of the function still
  reads after the \<open>await\<close> are the values its closure captured when it was invoked.
\<close>

record pending_send =
  ps_currentUserId :: js_string
  ps_selectedContact :: contact
  ps_newMessage :: js_string

text \<open>
  Up to the \<open>await\<close>: the guard, \<open>setSending(true)\<close> and the insert. \<open>None\<close> when the
  guard returns.
\<close>

definition handleSendMessage_submit :: "chat \<Rightarrow> pending_send option \<times> chat" where
  "handleSendMessage_submit s =
     (case (trim (newMessage s) = [], selectedContact s, sending s) of
        (False, Some c, False) \<Rightarrow>
          (Some \<lparr>ps_currentUserId = currentUserId s, ps_selectedContact = c,
                 ps_newMessage = newMessage s\<rparr>,
           issue (InsertMessage (currentUserId s) (contact_id c) (trim (newMessage s)))
             (s\<lparr>sending := True\<rparr>))
      | _ \<Rightarrow> (None, s))"

text \<open>\<open>newMsg\<close>, with the values of \<open>crypto.randomUUID()\<close> and of \<open>new Date()\<close>.\<close>

definition newMsg :: "pending_send \<Rightarrow> js_string \<Rightarrow> nat \<Rightarrow> message" where
  "newMsg p uuid now =
     \<lparr>message_id = uuid,
      sender_id = ps_currentUserId p,
      recipient_id = contact_id (ps_selectedContact p),
      content = trim (ps_newMessage p),
      read = False,
      created_at = now\<rparr>"

text \<open>
  From the \<open>await\<close> on, in the state the component has when the insert settles:
  the echo and the cleared input, or the \<open>catch\<close> block's toast; then \<open>finally\<close>.
\<close>

definition handleSendMessage_settle ::
  "pending_send \<Rightarrow> unit response \<Rightarrow> js_string \<Rightarrow> nat \<Rightarrow> chat \<Rightarrow> chat" where
  "handleSendMessage_settle p r uuid now s =
     (let s' =
        (case await_data r of
           Inr d \<Rightarrow> (setMessages (messages s @ [newMsg p uuid now]) s)\<lparr>newMessage := []\<rparr>
         | Inl error \<Rightarrow>
             show_toast
               \<lparr>title = lit ''Erro ao enviar mensagem'',
                description = message error,
                variant = Some (lit ''destructive'')\<rparr> s)
      in s'\<lparr>sending := False\<rparr>)"

text \<open>The whole of \<open>handleSendMessage\<close> when nothing else runs during the \<open>await\<close>.\<close>

definition handleSendMessage :: "backend \<Rightarrow> js_string \<Rightarrow> nat \<Rightarrow> chat \<Rightarrow> chat" where
  "handleSendMessage b uuid now s =
     (case handleSendMessage_submit s of
        (None, s') \<Rightarrow> s'
      | (Some p, s') \<Rightarrow>
          handleSendMessage_settle p
            (insert_message b (ps_currentUserId p) (contact_id (ps_selectedContact p))
               (trim (ps_newMessage p)))
            uuid now s')"

section \<open>The environment of the chat screen\<close>

text \<open>
  Modelled from the spec: the realtime primitive of the hosted database, which is not in
  the sources (section 6: "subscribe to insert events on a named data set, optionally
  filtered by an equality predicate on one field; deliver the full inserted row to the
  callback"). An inserted row reaches the callback of every open channel whose filter
  it passes.
\<close>

definition deliver :: "channel \<Rightarrow> message \<Rightarrow> chat \<Rightarrow> chat" where
  "deliver ch row s = (if sender_id row = filter_sender_id ch then on_insert ch row s else s)"

definition realtime_insert :: "message \<Rightarrow> chat \<Rightarrow> chat" where
  "realtime_insert row s = foldl (\<lambda>s' ch. deliver ch row s') s (channels s)"

text \<open>
  Modelled from the spec: \<open>useEffect\<close> of the view library, which is not in the sources
  (section 4.3: the channel "must be closed/unsubscribed when the selected contact
  changes or the screen unmounts"; section 9: "scoped acquisition with guaranteed
  release (teardown)"). The library keeps the teardown closure the effect returned, runs
  it before it runs the effect again for a changed dependency and when the screen
  unmounts, and runs nothing when the effect returned none.
\<close>

record screen =
  ui :: chat
  teardown :: "cleanup option"

definition run_cleanup :: "cleanup option \<Rightarrow> chat \<Rightarrow> chat" where
  "run_cleanup cl s =
     (case cl of
        None \<Rightarrow> s
      | Some (RemoveChannel ch) \<Rightarrow>
          s\<lparr>channels := filter (\<lambda>c. chan_no c \<noteq> chan_no ch) (channels s)\<rparr>)"

text \<open>
  \<open>setSelectedContact(contact)\<close> followed by the render it causes: nothing when the
  value is the one already held, else the old teardown and then the effect.
\<close>

definition setSelectedContact :: "backend \<Rightarrow> contact \<Rightarrow> screen \<Rightarrow> screen" where
  "setSelectedContact b c scr =
     (if selectedContact (ui scr) = Some c then scr
      else
        (let s0 = (ui scr)\<lparr>selectedContact := Some c\<rparr>;
             s1 = run_cleanup (teardown scr) s0;
             r = selectedContact_effect b s1
         in \<lparr>ui = snd r, teardown = fst r\<rparr>))"

definition unmount :: "screen \<Rightarrow> screen" where
  "unmount scr = \<lparr>ui = run_cleanup (teardown scr) (ui scr), teardown = None\<rparr>"

definition initial_chat :: chat where
  "initial_chat =
     \<lparr>currentUserId = [], userType = None, contacts = [], selectedContact = None,
      messages = [], newMessage = [], loading = True, sending = False,
      toasts = [], console = [], requests = [], channels = [], channels_opened = 0\<rparr>"

text \<open>
  Modelled from the spec: the tables of the hosted database and its answers to the
  queries, which are not in the sources (section 3 for the rows; section 6: "equality
  filters, inclusion-in-set filters, ascending order-by-timestamp, and a disjunctive (OR
  of two AND-groups) filter shape", "insert and update (partial field) operations").
  The columns are the ones the queries of the source name.
\<close>

record store =
  enrollments :: "enrollment list"
  classes :: "class_row list"
  professionals :: "profile list"
  students :: "profile list"
  private_messages :: "message list"

definition is_active :: "enrollment \<Rightarrow> bool" where
  "is_active e = (status e = lit ''active'')"

definition between :: "js_string \<Rightarrow> js_string \<Rightarrow> message \<Rightarrow> bool" where
  "between a b m =
     ((sender_id m = a \<and> recipient_id m = b) \<or> (sender_id m = b \<and> recipient_id m = a))"

text \<open>Modelled from the spec: a database in which every query succeeds.\<close>

definition store_backend :: "store \<Rightarrow> backend" where
  "store_backend db =
     \<lparr>enrollments_of_student = (\<lambda>u.
        Resp (Some (filter (\<lambda>e. student_id e = u \<and> is_active e) (enrollments db))) None),
      classes_in = (\<lambda>ids.
        Resp (Some (filter (\<lambda>c. cls_id c \<in> set ids) (classes db))) None),
      professionals_in = (\<lambda>ids.
        Resp (Some (filter (\<lambda>p. user_id p \<in> set ids) (professionals db))) None),
      classes_of_professional = (\<lambda>u.
        Resp (Some (filter (\<lambda>c. professional_id c = u) (classes db))) None),
      enrollments_in = (\<lambda>ids.
        Resp (Some (filter (\<lambda>e. class_id e \<in> set ids \<and> is_active e) (enrollments db))) None),
      students_in = (\<lambda>ids.
        Resp (Some (filter (\<lambda>p. user_id p \<in> set ids) (students db))) None),
      messages_between = (\<lambda>a b.
        Resp (Some (sort_key created_at (filter (between a b) (private_messages db)))) None),
      mark_read = (\<lambda>u c. Resp None None),
      insert_message = (\<lambda>u c t. Resp None None)\<rparr>"

text \<open>
  Modelled from the spec: what a request does to the tables. The update sets \<open>read\<close> on
  the rows that pass its three equality filters; the insert appends a row whose identity
  and creation time the database assigns (\<open>gen\<close>, by row count); a select changes
  nothing.
\<close>

definition store_apply :: "(nat \<Rightarrow> js_string \<times> nat) \<Rightarrow> store \<Rightarrow> request \<Rightarrow> store" where
  "store_apply gen db r =
     (case r of
        UpdateMarkRead u c \<Rightarrow>
          db\<lparr>private_messages :=
               map (\<lambda>m. if recipient_id m = u \<and> sender_id m = c \<and> read m = False
                         then m\<lparr>read := True\<rparr> else m)
                 (private_messages db)\<rparr>
      | InsertMessage u c t \<Rightarrow>
          db\<lparr>private_messages := private_messages db @
               [\<lparr>message_id = fst (gen (length (private_messages db))),
                 sender_id = u, recipient_id = c, content = t, read = False,
                 created_at = snd (gen (length (private_messages db)))\<rparr>]\<rparr>
      | _ \<Rightarrow> db)"

definition store_run :: "(nat \<Rightarrow> js_string \<times> nat) \<Rightarrow> store \<Rightarrow> request list \<Rightarrow> store" where
  "store_run gen db rs = foldl (store_apply gen) db rs"

text \<open>The requests a step issued: those of the later state beyond those of the earlier.\<close>

definition issued :: "chat \<Rightarrow> chat \<Rightarrow> request list" where
  "issued s s' = drop (length (requests s)) (requests s')"

section \<open>Failures and sample data\<close>

text \<open>The error a call ends with, if any: the rejection, or the \<open>error\<close> of the answer.\<close>

definition error_of :: "'a response \<Rightarrow> js_error option" where
  "error_of r = (case r of Threw e \<Rightarrow> Some e | Resp d err \<Rightarrow> err)"

text \<open>The error with which the backend \<open>b\<close> answers the request \<open>r\<close>, if any.\<close>

definition failure_of :: "backend \<Rightarrow> request \<Rightarrow> js_error option" where
  "failure_of b r =
     (case r of
        SelectEnrollmentsOfStudent u \<Rightarrow> error_of (enrollments_of_student b u)
      | SelectClassesIn ids \<Rightarrow> error_of (classes_in b ids)
      | SelectProfessionalsIn ids \<Rightarrow> error_of (professionals_in b ids)
      | SelectClassesOfProfessional u \<Rightarrow> error_of (classes_of_professional b u)
      | SelectEnrollmentsIn ids \<Rightarrow> error_of (enrollments_in b ids)
      | SelectStudentsIn ids \<Rightarrow> error_of (students_in b ids)
      | SelectMessagesBetween u c \<Rightarrow> error_of (messages_between b u c)
      | UpdateMarkRead u c \<Rightarrow> error_of (mark_read b u c)
      | InsertMessage u c t \<Rightarrow> error_of (insert_message b u c t))"

text \<open>
  The state a resolver leaves when its \<open>catch\<close> block has run for the error \<open>e\<close> after
  the requests \<open>rs\<close>: it ended normally, the contact list is empty, no toast was shown,
  and the console gained the one line that carries \<open>e\<close>.
\<close>

definition degraded ::
  "chat \<Rightarrow> js_error \<Rightarrow> request list \<Rightarrow> (js_error + unit) \<times> chat \<Rightarrow> bool" where
  "degraded s e rs r =
     (fst r = Inr () \<and> contacts (snd r) = [] \<and> toasts (snd r) = toasts s
      \<and> console (snd r) = console s @ [(lit ''Erro ao buscar contatos:'', e)]
      \<and> issued s (snd r) = rs)"

text \<open>
  A small database: the student \<open>me\<close> is actively enrolled in class \<open>K\<close> of the
  professional Ana and in class \<open>L\<close> of Bia, and has a cancelled enrollment in class
  \<open>N\<close> of Cai; the student \<open>zed\<close> is actively enrolled in a class \<open>Z\<close> that has no
  row; three messages are stored.
\<close>

definition ana :: contact where
  "ana = \<lparr>contact_id = lit ''ana'', name = lit ''Ana'', contact_type = Professional,
          avatar_url = None\<rparr>"

definition bia :: contact where
  "bia = \<lparr>contact_id = lit ''bia'', name = lit ''Bia'', contact_type = Professional,
          avatar_url = None\<rparr>"

definition msg_ana_2 :: message where
  "msg_ana_2 = \<lparr>message_id = lit ''m1'', sender_id = lit ''ana'', recipient_id = lit ''me'',
               content = lit ''Bom dia'', read = False, created_at = 2\<rparr>"

definition msg_me_1 :: message where
  "msg_me_1 = \<lparr>message_id = lit ''m2'', sender_id = lit ''me'', recipient_id = lit ''ana'',
              content = lit ''Oi'', read = False, created_at = 1\<rparr>"

definition msg_bia_3 :: message where
  "msg_bia_3 = \<lparr>message_id = lit ''m3'', sender_id = lit ''bia'', recipient_id = lit ''me'',
               content = lit ''Aula'', read = False, created_at = 3\<rparr>"

definition sample_store :: store where
  "sample_store =
     \<lparr>enrollments =
        [\<lparr>student_id = lit ''me'', class_id = lit ''K'', status = lit ''active''\<rparr>,
         \<lparr>student_id = lit ''me'', class_id = lit ''L'', status = lit ''active''\<rparr>,
         \<lparr>student_id = lit ''me'', class_id = lit ''N'', status = lit ''cancelled''\<rparr>,
         \<lparr>student_id = lit ''zed'', class_id = lit ''Z'', status = lit ''active''\<rparr>],
      classes =
        [\<lparr>cls_id = lit ''K'', professional_id = lit ''ana''\<rparr>,
         \<lparr>cls_id = lit ''L'', professional_id = lit ''bia''\<rparr>,
         \<lparr>cls_id = lit ''N'', professional_id = lit ''cai''\<rparr>],
      professionals =
        [\<lparr>user_id = lit ''ana'', full_name = lit ''Ana'', p_avatar_url = None\<rparr>,
         \<lparr>user_id = lit ''bia'', full_name = lit ''Bia'', p_avatar_url = None\<rparr>,
         \<lparr>user_id = lit ''cai'', full_name = lit ''Cai'', p_avatar_url = None\<rparr>],
      students =
        [\<lparr>user_id = lit ''me'', full_name = lit ''Eu'', p_avatar_url = None\<rparr>],
      private_messages = [msg_ana_2, msg_me_1, msg_bia_3]\<rparr>"

text \<open>The screen of \<open>me\<close> once the contacts are loaded, and with Ana selected.\<close>

definition sample_chat :: chat where
  "sample_chat =
     initial_chat\<lparr>currentUserId := lit ''me'', userType := Some Student,
       contacts := [ana, bia], loading := False\<rparr>"

definition sample_chat_ana :: chat where
  "sample_chat_ana = sample_chat\<lparr>selectedContact := Some ana, newMessage := lit '' Ola ''\<rparr>"

text \<open>The same when the conversation with Bia was on display before Ana was selected.\<close>

definition sample_chat_after_bia :: chat where
  "sample_chat_after_bia = sample_chat_ana\<lparr>messages := [msg_bia_3]\<rparr>"

definition sample_gen :: "nat \<Rightarrow> js_string \<times> nat" where
  "sample_gen n = (lit ''row'', 10 + n)"

definition outage :: js_error where
  "outage = Error (lit ''connection refused'')"

text \<open>What the send of \<open>me\<close> to Ana captures, and the channel opened for Ana.\<close>

definition sample_pending :: pending_send where
  "sample_pending = \<lparr>ps_currentUserId = lit ''me'', ps_selectedContact = ana,
      ps_newMessage = lit '' Ola ''\<rparr>"

definition sample_channel :: channel where
  "sample_channel = \<lparr>chan_no = 0, topic = lit ''private-chat-me-ana'',
      filter_sender_id = lit ''ana'', cb_currentUserId = lit ''me''\<rparr>"

text \<open>
  A user who has both profiles and is enrolled in a class of their own (\<open>self_store\<close>)
  is their own contact; \<open>msg_self\<close> is the row such a user's send stores.
\<close>

definition self_store :: store where
  "self_store =
     \<lparr>enrollments =
        [\<lparr>student_id = lit ''me'', class_id = lit ''M'', status = lit ''active''\<rparr>],
      classes = [\<lparr>cls_id = lit ''M'', professional_id = lit ''me''\<rparr>],
      professionals =
        [\<lparr>user_id = lit ''me'', full_name = lit ''Eu'', p_avatar_url = None\<rparr>],
      students =
        [\<lparr>user_id = lit ''me'', full_name = lit ''Eu'', p_avatar_url = None\<rparr>],
      private_messages = []\<rparr>"

definition myself :: contact where
  "myself = \<lparr>contact_id = lit ''me'', name = lit ''Eu'', contact_type = Professional,
          avatar_url = None\<rparr>"

definition sample_chat_self :: chat where
  "sample_chat_self =
     sample_chat\<lparr>contacts := [myself], selectedContact := Some myself,
       newMessage := lit ''Ola''\<rparr>"

definition msg_self :: message where
  "msg_self = \<lparr>message_id = lit ''m4'', sender_id = lit ''me'', recipient_id = lit ''me'',
               content = lit ''Ola'', read = False, created_at = 4\<rparr>"

text \<open>The mounted screen of \<open>me\<close>, and the same after selecting Ana and then Bia.\<close>

definition sample_screen :: screen where
  "sample_screen = \<lparr>ui = sample_chat, teardown = None\<rparr>"

definition after_ana_bia :: screen where
  "after_ana_bia =
     setSelectedContact (store_backend sample_store) bia
       (setSelectedContact (store_backend sample_store) ana sample_screen)"

text \<open>The enrolled-classes screen of \<open>me\<close> after load: the flag of class \<open>K\<close> is on.\<close>

definition sample_classes :: my_classes where
  "sample_classes = \<lparr>notifications = [lit ''K'' \<mapsto> True], mc_toasts = [], mc_requests = []\<rparr>"

text \<open>
  The sample database when one table cannot be read: its queries throw, or answer with
  an error.
\<close>

definition enrollments_down :: backend where
  "enrollments_down =
     (store_backend sample_store)\<lparr>enrollments_of_student := (\<lambda>u. Threw outage),
        enrollments_in := (\<lambda>ids. Resp None (Some outage))\<rparr>"

definition classes_down :: backend where
  "classes_down =
     (store_backend sample_store)\<lparr>classes_in := (\<lambda>ids. Threw outage),
        classes_of_professional := (\<lambda>u. Resp None (Some outage))\<rparr>"

definition profiles_down :: backend where
  "profiles_down =
     (store_backend sample_store)\<lparr>professionals_in := (\<lambda>ids. Resp None (Some outage)),
        students_in := (\<lambda>ids. Threw outage)\<rparr>"

text \<open>The active enrollments of \<open>me\<close> and the classes they refer to.\<close>

definition me_K :: enrollment where
  "me_K = \<lparr>student_id = lit ''me'', class_id = lit ''K'', status = lit ''active''\<rparr>"

definition me_L :: enrollment where
  "me_L = \<lparr>student_id = lit ''me'', class_id = lit ''L'', status = lit ''active''\<rparr>"

definition class_K :: class_row where
  "class_K = \<lparr>cls_id = lit ''K'', professional_id = lit ''ana''\<rparr>"

definition class_L :: class_row where
  "class_L = \<lparr>cls_id = lit ''L'', professional_id = lit ''bia''\<rparr>"

text \<open>The sample database when the history query answers with an error.\<close>

definition history_down :: backend where
  "history_down =
     (store_backend sample_store)\<lparr>messages_between := (\<lambda>a b. Resp None (Some outage))\<rparr>"

section \<open>The notification toggle: properties\<close>

lemma toast_wordings_differ: "toast_enabled \<noteq> toast_disabled"
  by (simp add: toast_enabled_def toast_disabled_def lit_def)

lemma toggle_notifications:
  "notifications (toggleNotifications k s) = (notifications s)(k \<mapsto> js_not_lookup (notifications s) k)"
  by (simp add: toggleNotifications_def Let_def)

lemma toggle_flag: "flag_on (notifications (toggleNotifications k s)) k = (\<not> flag_on (notifications s) k)"
  by (simp add: toggle_notifications flag_on_def js_not_lookup_def split: option.splits)

lemma toggle_toasts:
  "mc_toasts (toggleNotifications k s) =
     mc_toasts s @ [if flag_on (notifications s) k then toast_disabled else toast_enabled]"
  by (simp add: toggleNotifications_def Let_def flag_on_def js_not_lookup_def split: option.splits)

lemma toggle_requests: "mc_requests (toggleNotifications k s) = mc_requests s"
  by (simp add: toggleNotifications_def Let_def)

lemma toggle_twice_notifications:
  "notifications (toggleNotifications k (toggleNotifications k s)) =
     (notifications s)(k \<mapsto> flag_on (notifications s) k)"
  by (simp add: toggle_notifications flag_on_def js_not_lookup_def split: option.splits)

text \<open>
  C10. Toggling the notification flag of a class twice in succession gives the flag the
  value it had: the view reads the same boolean as before, and for a class whose flag
  was initialised on load the whole \<open>notifications\<close> object is the original one. Neither
  toggle issues a backend call. Each toggle shows exactly one toast worded after the new
  value of the flag, so the second toast is the opposite wording of the first.
\<close>

theorem toggle_twice_restores:
  fixes s :: my_classes and k :: js_string
  defines "s1 \<equiv> toggleNotifications k s"
  defines "s2 \<equiv> toggleNotifications k s1"
  shows "flag_on (notifications s2) k = flag_on (notifications s) k
       \<and> (k \<in> dom (notifications s) \<longrightarrow> notifications s2 = notifications s)
       \<and> (\<forall>j. j \<noteq> k \<longrightarrow> notifications s2 j = notifications s j)
       \<and> mc_requests s1 = mc_requests s \<and> mc_requests s2 = mc_requests s
       \<and> mc_toasts s1 = mc_toasts s @
            [if flag_on (notifications s1) k then toast_enabled else toast_disabled]
       \<and> mc_toasts s2 = mc_toasts s1 @
            [if flag_on (notifications s2) k then toast_enabled else toast_disabled]
       \<and> last (mc_toasts s2) \<noteq> last (mc_toasts s1)
       \<and> flag_on (notifications s1) k = (\<not> flag_on (notifications s) k)"
proof -
  have n2: "notifications s2 = (notifications s)(k \<mapsto> flag_on (notifications s) k)"
    unfolding s1_def s2_def by (rule toggle_twice_notifications)
  have f1: "flag_on (notifications s1) k = (\<not> flag_on (notifications s) k)"
    unfolding s1_def by (rule toggle_flag)
  have f2: "flag_on (notifications s2) k = flag_on (notifications s) k"
    unfolding s2_def by (simp add: toggle_flag f1)
  have dom: "k \<in> dom (notifications s) \<longrightarrow> notifications s2 = notifications s"
    by (auto simp: n2 flag_on_def fun_upd_idem_iff)
  have others: "\<forall>j. j \<noteq> k \<longrightarrow> notifications s2 j = notifications s j"
    by (simp add: n2)
  have r1: "mc_requests s1 = mc_requests s"
    unfolding s1_def by (rule toggle_requests)
  have r2: "mc_requests s2 = mc_requests s"
    unfolding s2_def by (simp add: toggle_requests r1)
  have t1: "mc_toasts s1 = mc_toasts s @
      [if flag_on (notifications s1) k then toast_enabled else toast_disabled]"
    unfolding s1_def by (simp add: toggle_toasts toggle_flag)
  have t2: "mc_toasts s2 = mc_toasts s1 @
      [if flag_on (notifications s2) k then toast_enabled else toast_disabled]"
    unfolding s2_def by (simp add: toggle_toasts toggle_flag)
  have opp: "last (mc_toasts s2) \<noteq> last (mc_toasts s1)"
    using toast_wordings_differ by (simp add: t1 t2 f1 f2 del: toast.simps)
  show ?thesis
    using f2 dom others r1 r2 t1 t2 opp f1 by blast
qed

text \<open>The flag of class \<open>K\<close>, set on load, toggled twice.\<close>

theorem toggle_twice_restores_witness:
  "lit ''K'' \<in> dom (notifications sample_classes)
   \<and> notifications (toggleNotifications (lit ''K'') (toggleNotifications (lit ''K'') sample_classes))
       = notifications sample_classes
   \<and> mc_toasts (toggleNotifications (lit ''K'') (toggleNotifications (lit ''K'') sample_classes))
       = [toast_disabled, toast_enabled]
   \<and> mc_requests (toggleNotifications (lit ''K'') (toggleNotifications (lit ''K'') sample_classes)) = []"
proof -
  have k: "lit ''K'' \<in> dom (notifications sample_classes)"
    by (simp add: sample_classes_def)
  have f: "flag_on (notifications sample_classes) (lit ''K'')"
    by (simp add: sample_classes_def flag_on_def)
  show ?thesis
    using toggle_twice_restores [of "lit ''K''" sample_classes] k f
    by (simp add: sample_classes_def)
qed

section \<open>The chat session: history load\<close>

lemma between_doubleton:
  "between a b m \<longleftrightarrow> {sender_id m, recipient_id m} = {a, b}"
  by (auto simp: between_def doubleton_eq_iff)

lemma sort_key_Nil_iff: "sort_key f xs = [] \<longleftrightarrow> xs = []"
  using length_sort [of f xs] by (metis length_0_conv)

lemma fetchMessages_store_messages:
  assumes "selectedContact s = Some c"
  shows "messages (snd (fetchMessages (store_backend db) s)) =
           sort_key created_at
             (filter (between (currentUserId s) (contact_id c)) (private_messages db))"
  using assms
  by (simp add: fetchMessages_def store_backend_def Let_def issue_def setMessages_def
      split: list.splits)

lemma fetchMessages_store_issued:
  assumes "selectedContact s = Some c"
  shows "issued s (snd (fetchMessages (store_backend db) s)) =
     SelectMessagesBetween (currentUserId s) (contact_id c) #
     (if filter (between (currentUserId s) (contact_id c)) (private_messages db) = [] then []
      else [UpdateMarkRead (currentUserId s) (contact_id c)])"
  using assms
  by (auto simp: fetchMessages_def store_backend_def Let_def issue_def setMessages_def issued_def
      sort_key_Nil_iff split: list.splits)

text \<open>The sample screen with Ana selected.\<close>

lemma sample_selected: "selectedContact sample_chat_ana = Some ana"
  by (simp add: sample_chat_ana_def)

lemma sample_user: "currentUserId sample_chat_ana = lit ''me''"
  by (simp add: sample_chat_ana_def sample_chat_def initial_chat_def)

lemma sample_loaded:
  "messages (snd (fetchMessages (store_backend sample_store) sample_chat_ana)) =
       [msg_me_1, msg_ana_2]"
  by (simp add: fetchMessages_store_messages [OF sample_selected] sample_user
        sample_store_def between_def msg_me_1_def msg_ana_2_def msg_bia_3_def ana_def lit_def)

text \<open>
  C3. With B the selected contact and A the current identity, a history load that the
  database answers sets the message list to exactly the stored messages whose sender and
  recipient are A and B in either direction (each as often as it is stored), in
  ascending order of creation time.
\<close>

theorem history_load:
  assumes "selectedContact s = Some c"
  shows "mset (messages (snd (fetchMessages (store_backend db) s))) =
           filter_mset (\<lambda>m. {sender_id m, recipient_id m} = {currentUserId s, contact_id c})
             (mset (private_messages db))
       \<and> sorted (map created_at (messages (snd (fetchMessages (store_backend db) s))))"
  by (simp add: fetchMessages_store_messages [OF assms] between_doubleton [symmetric])

text \<open>The history of \<open>me\<close> with Ana in the sample database.\<close>

theorem history_load_witness:
  "selectedContact sample_chat_ana = Some ana
   \<and> messages (snd (fetchMessages (store_backend sample_store) sample_chat_ana)) =
       [msg_me_1, msg_ana_2]"
proof -
  have "messages (snd (fetchMessages (store_backend sample_store) sample_chat_ana)) =
       [msg_me_1, msg_ana_2]"
    by (simp add: fetchMessages_store_messages [OF sample_selected] sample_user
        sample_store_def between_def msg_me_1_def msg_ana_2_def msg_bia_3_def ana_def lit_def)
  with history_load [OF sample_selected, of sample_store] sample_selected
  show ?thesis by simp
qed

text \<open>
  C8. After a history load that the database answers, applying the requests the load
  issued leaves the tables as they were except that exactly the stored messages that are
  in the loaded result, are addressed to the current identity and are unread have
  \<open>read\<close> set; every other message, and every other table, is as before.
\<close>

theorem mark_read_frame:
  assumes "selectedContact s = Some c"
  shows "store_run gen db (issued s (snd (fetchMessages (store_backend db) s))) =
     db\<lparr>private_messages :=
          map (\<lambda>m. if m \<in> set (messages (snd (fetchMessages (store_backend db) s)))
                       \<and> recipient_id m = currentUserId s \<and> \<not> read m
                    then m\<lparr>read := True\<rparr> else m)
            (private_messages db)\<rparr>"
proof -
  let ?u = "currentUserId s" and ?c = "contact_id c"
  let ?loaded = "messages (snd (fetchMessages (store_backend db) s))"
  have loaded: "set ?loaded = {m \<in> set (private_messages db). between ?u ?c m}"
    by (simp add: fetchMessages_store_messages [OF assms])
  have same: "\<And>m. m \<in> set (private_messages db) \<Longrightarrow>
      (recipient_id m = ?u \<and> sender_id m = ?c \<and> read m = False) =
      (m \<in> set ?loaded \<and> recipient_id m = ?u \<and> \<not> read m)"
    by (auto simp: loaded between_def)
  show ?thesis
  proof (cases "filter (between ?u ?c) (private_messages db) = []")
    case True
    then have none: "\<And>m. m \<in> set (private_messages db) \<Longrightarrow> \<not> between ?u ?c m"
      by (simp add: filter_empty_conv)
    have "map (\<lambda>m. if m \<in> set ?loaded \<and> recipient_id m = ?u \<and> \<not> read m
                    then m\<lparr>read := True\<rparr> else m) (private_messages db)
          = private_messages db"
      by (rule map_idI) (simp add: loaded none)
    with True show ?thesis
      by (simp add: fetchMessages_store_issued [OF assms] store_run_def store_apply_def)
  next
    case False
    have "map (\<lambda>m. if recipient_id m = ?u \<and> sender_id m = ?c \<and> read m = False
                    then m\<lparr>read := True\<rparr> else m) (private_messages db)
        = map (\<lambda>m. if m \<in> set ?loaded \<and> recipient_id m = ?u \<and> \<not> read m
                    then m\<lparr>read := True\<rparr> else m) (private_messages db)"
      by (rule map_cong [OF refl]) (simp only: same)
    with False show ?thesis
      by (simp add: fetchMessages_store_issued [OF assms] store_run_def store_apply_def)
  qed
qed

text \<open>Only Ana's unread message to \<open>me\<close> is marked.\<close>

theorem mark_read_frame_witness:
  "selectedContact sample_chat_ana = Some ana
   \<and> private_messages (store_run sample_gen sample_store
        (issued sample_chat_ana (snd (fetchMessages (store_backend sample_store) sample_chat_ana))))
     = [msg_ana_2\<lparr>read := True\<rparr>, msg_me_1, msg_bia_3]"
proof -
  have "private_messages (store_run sample_gen sample_store
        (issued sample_chat_ana (snd (fetchMessages (store_backend sample_store) sample_chat_ana))))
     = [msg_ana_2\<lparr>read := True\<rparr>, msg_me_1, msg_bia_3]"
    unfolding mark_read_frame [OF sample_selected, of sample_gen sample_store]
    by (simp add: sample_loaded sample_user)
       (simp add: sample_store_def msg_me_1_def msg_ana_2_def msg_bia_3_def lit_def)
  with sample_selected show ?thesis by simp
qed

text \<open>
  C9. When the history query for the selected contact comes back with an error, the
  load ends normally with the message list and the toasts as they were, one line on
  the console, and the history query as its only request: no mark-read update is issued.
\<close>

theorem fetch_error_keeps_list:
  assumes "selectedContact s = Some c"
      and "messages_between b (currentUserId s) (contact_id c) = Resp d (Some e)"
  shows "fst (fetchMessages b s) = Inr ()
       \<and> messages (snd (fetchMessages b s)) = messages s
       \<and> toasts (snd (fetchMessages b s)) = toasts s
       \<and> issued s (snd (fetchMessages b s)) =
           [SelectMessagesBetween (currentUserId s) (contact_id c)]
       \<and> console (snd (fetchMessages b s)) =
           console s @ [(lit ''Error fetching messages:'', e)]"
  using assms
  by (simp add: fetchMessages_def Let_def issue_def console_error_def issued_def)

text \<open>
  The screen of \<open>me\<close> still shows the conversation with Bia when Ana is selected and
  the history query is answered with an error.
\<close>

theorem fetch_error_keeps_list_witness:
  "selectedContact sample_chat_after_bia = Some ana
   \<and> messages_between history_down (currentUserId sample_chat_after_bia) (contact_id ana) =
       Resp None (Some outage)
   \<and> fst (fetchMessages history_down sample_chat_after_bia) = Inr ()
   \<and> messages (snd (fetchMessages history_down sample_chat_after_bia)) = [msg_bia_3]
   \<and> toasts (snd (fetchMessages history_down sample_chat_after_bia)) = []
   \<and> issued sample_chat_after_bia (snd (fetchMessages history_down sample_chat_after_bia)) =
       [SelectMessagesBetween (lit ''me'') (lit ''ana'')]
   \<and> console (snd (fetchMessages history_down sample_chat_after_bia)) =
       [(lit ''Error fetching messages:'', outage)]"
proof -
  have c: "selectedContact sample_chat_after_bia = Some ana"
    by (simp add: sample_chat_after_bia_def sample_chat_ana_def)
  have h: "messages_between history_down (currentUserId sample_chat_after_bia) (contact_id ana) =
       Resp None (Some outage)"
    by (simp add: history_down_def)
  have s: "messages sample_chat_after_bia = [msg_bia_3] \<and> toasts sample_chat_after_bia = []
      \<and> console sample_chat_after_bia = [] \<and> currentUserId sample_chat_after_bia = lit ''me''"
    by (simp add: sample_chat_after_bia_def sample_chat_ana_def sample_chat_def initial_chat_def)
  show ?thesis
    using fetch_error_keeps_list [OF c h] c h s
    by simp (simp add: ana_def)
qed

section \<open>The chat session: sending\<close>

lemma submit_guard:
  "trim (newMessage s) = [] \<or> selectedContact s = None \<or> sending s
    \<Longrightarrow> handleSendMessage_submit s = (None, s)"
  by (auto simp: handleSendMessage_submit_def split: option.splits bool.splits)

lemma submit_Some:
  assumes "handleSendMessage_submit s = (Some p, s1)"
  shows "\<exists>c. selectedContact s = Some c \<and> trim (newMessage s) \<noteq> [] \<and> \<not> sending s
           \<and> p = \<lparr>ps_currentUserId = currentUserId s, ps_selectedContact = c,
                   ps_newMessage = newMessage s\<rparr>
           \<and> s1 = s\<lparr>sending := True,
                   requests := requests s @
                     [InsertMessage (currentUserId s) (contact_id c) (trim (newMessage s))]\<rparr>"
  using assms
  by (auto simp: handleSendMessage_submit_def issue_def split: option.splits bool.splits)

text \<open>The send of the sample screen passes the guard.\<close>

lemma sample_trim: "trim (newMessage sample_chat_ana) = lit ''Ola''"
  by (simp add: sample_chat_ana_def trim_def lit_def is_white_space_def)

lemma sample_submit:
  "handleSendMessage_submit sample_chat_ana =
     (Some sample_pending,
      issue (InsertMessage (lit ''me'') (lit ''ana'') (lit ''Ola''))
        (sample_chat_ana\<lparr>sending := True\<rparr>))"
proof -
  have n: "trim (newMessage sample_chat_ana) \<noteq> []"
    by (simp add: sample_trim) (simp add: lit_def)
  have "\<not> sending sample_chat_ana"
    by (simp add: sample_chat_ana_def sample_chat_def initial_chat_def)
  with n show ?thesis
    apply (simp add: handleSendMessage_submit_def sample_selected sample_user sample_trim sample_pending_def)
    apply (simp add: ana_def sample_chat_ana_def)
    done
qed

text \<open>
  C5. A send whose text trims to the empty string, or with no contact selected, or
  while an earlier send is in flight, returns at the guard: the state is unchanged, so
  no request is issued and the message list is not touched. When a send passes the
  guard, a second invocation before the first settles returns at the guard; the two
  invocations together issue one insert, and the database gains exactly one row.
\<close>

theorem send_guard:
  "(trim (newMessage s) = [] \<or> selectedContact s = None \<or> sending s \<longrightarrow>
      handleSendMessage_submit s = (None, s) \<and> handleSendMessage b uuid now s = s)
   \<and> (handleSendMessage_submit s = (Some p, s1) \<longrightarrow>
      handleSendMessage_submit s1 = (None, s1)
      \<and> messages s1 = messages s
      \<and> issued s (snd (handleSendMessage_submit s1)) =
          [InsertMessage (ps_currentUserId p) (contact_id (ps_selectedContact p))
             (trim (ps_newMessage p))]
      \<and> length (private_messages
            (store_run gen db (issued s (snd (handleSendMessage_submit s1))))) =
          Suc (length (private_messages db)))"
proof (intro conjI impI)
  assume g: "trim (newMessage s) = [] \<or> selectedContact s = None \<or> sending s"
  show "handleSendMessage_submit s = (None, s)" by (rule submit_guard [OF g])
  then show "handleSendMessage b uuid now s = s" by (simp add: handleSendMessage_def)
next
  assume a: "handleSendMessage_submit s = (Some p, s1)"
  from submit_Some [OF a] obtain c where
    p: "p = \<lparr>ps_currentUserId = currentUserId s, ps_selectedContact = c,
             ps_newMessage = newMessage s\<rparr>"
    and s1: "s1 = s\<lparr>sending := True,
                   requests := requests s @
                     [InsertMessage (currentUserId s) (contact_id c) (trim (newMessage s))]\<rparr>"
    by blast
  have "sending s1" by (simp add: s1)
  then show again: "handleSendMessage_submit s1 = (None, s1)" by (simp add: submit_guard)
  show "messages s1 = messages s" by (simp add: s1)
  show iss: "issued s (snd (handleSendMessage_submit s1)) =
          [InsertMessage (ps_currentUserId p) (contact_id (ps_selectedContact p))
             (trim (ps_newMessage p))]"
    by (simp add: again) (simp add: s1 p issued_def)
  show "length (private_messages
            (store_run gen db (issued s (snd (handleSendMessage_submit s1))))) =
          Suc (length (private_messages db))"
    by (simp add: iss store_run_def store_apply_def)
qed

text \<open>A send of \<open>me\<close> to Ana followed at once by a second one, and a blank send.\<close>

theorem send_guard_witness:
  "handleSendMessage_submit sample_chat_ana =
     (Some sample_pending,
      issue (InsertMessage (lit ''me'') (lit ''ana'') (lit ''Ola''))
        (sample_chat_ana\<lparr>sending := True\<rparr>))
   \<and> handleSendMessage_submit
        (issue (InsertMessage (lit ''me'') (lit ''ana'') (lit ''Ola''))
          (sample_chat_ana\<lparr>sending := True\<rparr>)) =
       (None, issue (InsertMessage (lit ''me'') (lit ''ana'') (lit ''Ola''))
          (sample_chat_ana\<lparr>sending := True\<rparr>))
   \<and> trim (newMessage (sample_chat_ana\<lparr>newMessage := lit ''  ''\<rparr>)) = []
   \<and> handleSendMessage (store_backend sample_store) (lit ''id'') 7
        (sample_chat_ana\<lparr>newMessage := lit ''  ''\<rparr>) =
       sample_chat_ana\<lparr>newMessage := lit ''  ''\<rparr>"
proof -
  have t: "trim (newMessage (sample_chat_ana\<lparr>newMessage := lit ''  ''\<rparr>)) = []"
    by (simp add: trim_def lit_def is_white_space_def)
  show ?thesis
    using send_guard [of "sample_chat_ana\<lparr>newMessage := lit ''  ''\<rparr>"
        "store_backend sample_store" "lit ''id''" 7 sample_pending
        "issue (InsertMessage (lit ''me'') (lit ''ana'') (lit ''Ola''))
          (sample_chat_ana\<lparr>sending := True\<rparr>)" sample_gen sample_store]
      send_guard [of sample_chat_ana
        "store_backend sample_store" "lit ''id''" 7 sample_pending
        "issue (InsertMessage (lit ''me'') (lit ''ana'') (lit ''Ola''))
          (sample_chat_ana\<lparr>sending := True\<rparr>)" sample_gen sample_store]
      sample_submit t
    by simp
qed

text \<open>
  C6. Take a send that passed the guard with contact \<open>c\<close> selected, and the state \<open>t\<close>
  of the screen when its insert settles. If the insert succeeded, the message list of
  \<open>t\<close> gains exactly one message at its end, with the generated identity, the current
  time, the current identity as sender, \<open>c\<close> as recipient and the trimmed text as
  content, and the input is cleared, with no toast. If the insert failed (it threw, or
  answered with an error), one toast carrying the error's message is shown, and both the
  input and the message list are those of \<open>t\<close>. Either way \<open>sending\<close> ends false.
\<close>

theorem send_outcome:
  assumes "handleSendMessage_submit s = (Some p, s1)"
      and "selectedContact s = Some c"
  shows "(\<forall>d. r = Resp d None \<longrightarrow>
            messages (handleSendMessage_settle p r uuid now t) = messages t @
              [\<lparr>message_id = uuid, sender_id = currentUserId s,
                recipient_id = contact_id c,
                content = trim (newMessage s), read = False, created_at = now\<rparr>]
            \<and> newMessage (handleSendMessage_settle p r uuid now t) = []
            \<and> toasts (handleSendMessage_settle p r uuid now t) = toasts t
            \<and> sending (handleSendMessage_settle p r uuid now t) = False)
       \<and> (\<forall>d e. r = Threw e \<or> r = Resp d (Some e) \<longrightarrow>
            messages (handleSendMessage_settle p r uuid now t) = messages t
            \<and> newMessage (handleSendMessage_settle p r uuid now t) = newMessage t
            \<and> toasts (handleSendMessage_settle p r uuid now t) = toasts t @
                [\<lparr>title = lit ''Erro ao enviar mensagem'', description = message e,
                  variant = Some (lit ''destructive'')\<rparr>]
            \<and> sending (handleSendMessage_settle p r uuid now t) = False)"
proof -
  from submit_Some [OF assms(1)] assms(2) have
    p: "p = \<lparr>ps_currentUserId = currentUserId s, ps_selectedContact = c,
             ps_newMessage = newMessage s\<rparr>"
    by auto
  show ?thesis
    by (auto simp: handleSendMessage_settle_def await_data_def newMsg_def p setMessages_def
        show_toast_def Let_def)
qed

text \<open>The send of \<open>me\<close> to Ana, stored by the sample database, and refused.\<close>

theorem send_outcome_witness:
  "handleSendMessage_submit sample_chat_ana =
     (Some sample_pending,
      issue (InsertMessage (lit ''me'') (lit ''ana'') (lit ''Ola''))
        (sample_chat_ana\<lparr>sending := True\<rparr>))
   \<and> selectedContact sample_chat_ana = Some ana
   \<and> messages (handleSendMessage (store_backend sample_store) (lit ''id'') 7 sample_chat_ana) =
       [\<lparr>message_id = lit ''id'', sender_id = lit ''me'', recipient_id = lit ''ana'',
         content = lit ''Ola'', read = False, created_at = 7\<rparr>]
   \<and> newMessage (handleSendMessage (store_backend sample_store) (lit ''id'') 7 sample_chat_ana) = []
   \<and> toasts (handleSendMessage_settle sample_pending (Threw outage) (lit ''id'') 7
        (issue (InsertMessage (lit ''me'') (lit ''ana'') (lit ''Ola''))
          (sample_chat_ana\<lparr>sending := True\<rparr>))) =
       [\<lparr>title = lit ''Erro ao enviar mensagem'', description = lit ''connection refused'',
         variant = Some (lit ''destructive'')\<rparr>]
   \<and> newMessage (handleSendMessage_settle sample_pending (Threw outage) (lit ''id'') 7
        (issue (InsertMessage (lit ''me'') (lit ''ana'') (lit ''Ola''))
          (sample_chat_ana\<lparr>sending := True\<rparr>))) = lit '' Ola ''"
proof -
  let ?s1 = "issue (InsertMessage (lit ''me'') (lit ''ana'') (lit ''Ola''))
          (sample_chat_ana\<lparr>sending := True\<rparr>)"
  have s1: "messages ?s1 = [] \<and> toasts ?s1 = [] \<and> newMessage ?s1 = lit '' Ola ''"
    by (simp add: issue_def sample_chat_ana_def sample_chat_def initial_chat_def)
  have whole: "handleSendMessage (store_backend sample_store) (lit ''id'') 7 sample_chat_ana =
      handleSendMessage_settle sample_pending (Resp None None) (lit ''id'') 7 ?s1"
    by (simp add: handleSendMessage_def sample_submit) (simp add: store_backend_def)
  show ?thesis
    using send_outcome [OF sample_submit sample_selected, of "Resp None None" "lit ''id''" 7 ?s1]
      send_outcome [OF sample_submit sample_selected, of "Threw outage" "lit ''id''" 7 ?s1]
      sample_submit sample_selected s1
    by (simp add: whole sample_user sample_trim outage_def) (simp add: ana_def)
qed

section \<open>The chat session: the realtime channel\<close>

lemma subscribe_Some:
  assumes "selectedContact s = Some c"
  shows "subscribeToMessages s =
    (Some (RemoveChannel \<lparr>chan_no = channels_opened s,
                  topic = lit ''private-chat-'' @ currentUserId s @ lit ''-'' @ contact_id c,
                  filter_sender_id = contact_id c,
                  cb_currentUserId = currentUserId s\<rparr>),
     s\<lparr>channels := channels s @ [\<lparr>chan_no = channels_opened s,
                  topic = lit ''private-chat-'' @ currentUserId s @ lit ''-'' @ contact_id c,
                  filter_sender_id = contact_id c,
                  cb_currentUserId = currentUserId s\<rparr>],
        channels_opened := Suc (channels_opened s)\<rparr>)"
  using assms by (simp add: subscribeToMessages_def Let_def)

text \<open>The channel that the sample screen opens.\<close>

lemma sample_subscribe:
  "subscribeToMessages sample_chat_ana =
     (Some (RemoveChannel sample_channel),
      sample_chat_ana\<lparr>channels := [sample_channel], channels_opened := 1\<rparr>)"
  by (simp add: subscribe_Some [OF sample_selected] sample_user sample_channel_def)
     (simp add: ana_def sample_chat_ana_def sample_chat_def initial_chat_def lit_def)

text \<open>
  C7, as amended. Let \<open>ch\<close> be the channel that \<open>subscribeToMessages\<close> opens while
  contact \<open>c\<close> is selected. An inserted row is appended to the message list by \<open>ch\<close>
  if and only if its sender is \<open>c\<close> and its recipient is the current identity; any
  other row leaves the state as it is. Hence a row whose sender is the current identity
  is never appended by \<open>ch\<close>, provided the selected contact is not the current
  identity itself.
\<close>

theorem channel_appends_iff:
  assumes "selectedContact s = Some c"
      and "subscribeToMessages s = (Some (RemoveChannel ch), s')"
  shows "(messages (deliver ch row t) = messages t @ [row]) =
           (sender_id row = contact_id c \<and> recipient_id row = currentUserId s)
       \<and> (deliver ch row t = t \<or> messages (deliver ch row t) = messages t @ [row])
       \<and> (contact_id c \<noteq> currentUserId s \<and> sender_id row = currentUserId s \<longrightarrow>
            deliver ch row t = t)"
  using assms
  by (auto simp: subscribe_Some deliver_def on_insert_def setMessages_def)

text \<open>The channel of \<open>me\<close> for Ana and the three stored messages.\<close>

theorem channel_appends_iff_witness:
  "selectedContact sample_chat_ana = Some ana
   \<and> subscribeToMessages sample_chat_ana =
     (Some (RemoveChannel sample_channel),
      sample_chat_ana\<lparr>channels := [sample_channel], channels_opened := 1\<rparr>)
   \<and> messages (deliver sample_channel msg_ana_2 sample_chat_ana) = [msg_ana_2]
   \<and> contact_id ana \<noteq> currentUserId sample_chat_ana
   \<and> sender_id msg_me_1 = currentUserId sample_chat_ana
   \<and> deliver sample_channel msg_me_1 sample_chat_ana = sample_chat_ana
   \<and> deliver sample_channel msg_bia_3 sample_chat_ana = sample_chat_ana"
proof -
  have m: "messages sample_chat_ana = []"
    by (simp add: sample_chat_ana_def sample_chat_def initial_chat_def)
  have a: "sender_id msg_ana_2 = contact_id ana \<and> recipient_id msg_ana_2 = currentUserId sample_chat_ana"
    by (simp add: sample_user) (simp add: msg_ana_2_def ana_def)
  have d: "contact_id ana \<noteq> currentUserId sample_chat_ana"
    by (simp add: sample_user) (simp add: ana_def lit_def)
  have e: "sender_id msg_me_1 = currentUserId sample_chat_ana"
    by (simp add: sample_user) (simp add: msg_me_1_def)
  have b: "sender_id msg_bia_3 \<noteq> contact_id ana"
    by (simp add: msg_bia_3_def ana_def lit_def)
  show ?thesis
    using channel_appends_iff [OF sample_selected sample_subscribe, of msg_ana_2 sample_chat_ana]
      channel_appends_iff [OF sample_selected sample_subscribe, of msg_me_1 sample_chat_ana]
      channel_appends_iff [OF sample_selected sample_subscribe, of msg_bia_3 sample_chat_ana]
      sample_selected sample_subscribe m a d e b
    by auto
qed

text \<open>
  C7 as stated fails for a user who is their own contact, which the student lookup
  yields for \<open>self_store\<close>: the row their send stores has the current identity as
  sender, passes the filter of the channel and is appended, so that the list holds the
  text twice, once from the echo and once from the channel.
\<close>

theorem self_sent_row_appended:
  "contacts (snd (fetchStudentContacts (store_backend self_store) (lit ''me'') sample_chat)) =
     [myself]
   \<and> sender_id msg_self = currentUserId sample_chat_self
   \<and> messages (realtime_insert msg_self (snd (subscribeToMessages sample_chat_self))) =
       messages (snd (subscribeToMessages sample_chat_self)) @ [msg_self]
   \<and> map content (messages (realtime_insert msg_self
        (handleSendMessage (store_backend self_store) (lit ''id'') 4
          (snd (subscribeToMessages sample_chat_self))))) = [lit ''Ola'', lit ''Ola'']"
proof -
  have c: "contacts (snd (fetchStudentContacts (store_backend self_store) (lit ''me'')
      sample_chat)) = [myself]"
    by (simp add: fetchStudentContacts_def fetchStudentContacts_try_def catch_contacts_def
      store_backend_def self_store_def is_active_def await_data_def spread_new_Set_def
      issue_def setContacts_def professional_contact_def myself_def Let_def lit_def)
  have r: "sender_id msg_self = currentUserId sample_chat_self
   \<and> messages (realtime_insert msg_self (snd (subscribeToMessages sample_chat_self))) =
       messages (snd (subscribeToMessages sample_chat_self)) @ [msg_self]
   \<and> map content (messages (realtime_insert msg_self
        (handleSendMessage (store_backend self_store) (lit ''id'') 4
          (snd (subscribeToMessages sample_chat_self))))) = [lit ''Ola'', lit ''Ola'']"
    by (simp add: sample_chat_self_def sample_chat_def initial_chat_def myself_def msg_self_def
      subscribeToMessages_def realtime_insert_def deliver_def on_insert_def setMessages_def
      handleSendMessage_def handleSendMessage_submit_def handleSendMessage_settle_def
      store_backend_def await_data_def issue_def newMsg_def trim_def is_white_space_def lit_def
      Let_def)
  from c r show ?thesis by simp
qed

section \<open>The contact resolver\<close>

lemma await_data_Inl: "(await_data r = Inl e) = (error_of r = Some e)"
  by (simp add: await_data_def error_of_def split: response.splits option.splits)

lemma await_data_Inr: "await_data r = Inr d \<Longrightarrow> error_of r = None"
  by (simp add: await_data_def error_of_def split: response.splits option.splits)

lemma set_spread_new_Set: "set (spread_new_Set xs) = set xs"
  by (simp add: spread_new_Set_def)

lemma spread_new_Set_Nil: "(spread_new_Set xs = []) = (xs = [])"
  using set_spread_new_Set [of xs] by (metis set_empty)

text \<open>
  Each \<open>try\<close> block shows no toast and writes nothing to the console. When it throws,
  the error is the one the last request it issued ended with; when it does not, none of
  the requests it issued failed.
\<close>

lemma student_try_cases:
  fixes b u s
  defines "r \<equiv> fetchStudentContacts_try b u s"
  shows "toasts (snd r) = toasts s \<and> console (snd r) = console s
     \<and> (case fst r of
          Inl e \<Rightarrow> issued s (snd r) \<noteq> [] \<and> failure_of b (last (issued s (snd r))) = Some e
        | Inr _ \<Rightarrow> (\<forall>q \<in> set (issued s (snd r)). failure_of b q = None))"
  unfolding r_def fetchStudentContacts_try_def
  by (auto simp: Let_def issue_def setContacts_def issued_def failure_of_def await_data_Inl
      dest: await_data_Inr split: sum.splits option.splits list.splits)

lemma professional_try_cases:
  fixes b u s
  defines "r \<equiv> fetchProfessionalContacts_try b u s"
  shows "toasts (snd r) = toasts s \<and> console (snd r) = console s
     \<and> (case fst r of
          Inl e \<Rightarrow> issued s (snd r) \<noteq> [] \<and> failure_of b (last (issued s (snd r))) = Some e
        | Inr _ \<Rightarrow> (\<forall>q \<in> set (issued s (snd r)). failure_of b q = None))"
  unfolding r_def fetchProfessionalContacts_try_def
  by (auto simp: Let_def issue_def setContacts_def issued_def failure_of_def await_data_Inl
      dest: await_data_Inr split: sum.splits option.splits list.splits)

lemma catch_contacts_degrades:
  assumes "toasts (snd r) = toasts s \<and> console (snd r) = console s
     \<and> (case fst r of
          Inl e \<Rightarrow> issued s (snd r) \<noteq> [] \<and> failure_of b (last (issued s (snd r))) = Some e
        | Inr _ \<Rightarrow> (\<forall>q \<in> set (issued s (snd r)). failure_of b q = None))"
  shows "fst (catch_contacts r) = Inr ()
     \<and> toasts (snd (catch_contacts r)) = toasts s
     \<and> ((\<exists>q \<in> set (issued s (snd (catch_contacts r))). failure_of b q \<noteq> None) \<longrightarrow>
          contacts (snd (catch_contacts r)) = []
          \<and> (\<exists>e. failure_of b (last (issued s (snd (catch_contacts r)))) = Some e
                \<and> console (snd (catch_contacts r)) =
                    console s @ [(lit ''Erro ao buscar contatos:'', e)]))"
proof (cases r)
  case (Pair x s')
  show ?thesis
  proof (cases x)
    case (Inl e)
    with Pair assms show ?thesis
      by (auto simp: catch_contacts_def setContacts_def console_error_def issued_def)
  next
    case (Inr v)
    with Pair assms show ?thesis
      by (auto simp: catch_contacts_def)
  qed
qed

text \<open>A failing step of either chain, given what the steps before it answered.\<close>

lemma student_step1_fails:
  assumes "error_of (enrollments_of_student b u) = Some e"
  shows "degraded s e [SelectEnrollmentsOfStudent u] (fetchStudentContacts b u s)"
  using assms
  by (simp add: degraded_def fetchStudentContacts_def fetchStudentContacts_try_def
      catch_contacts_def await_data_Inl [symmetric] Let_def issue_def setContacts_def
      console_error_def issued_def)

lemma await_data_Resp: "await_data (Resp d None) = Inr d"
  by (simp add: await_data_def)

lemma student_step2_fails:
  assumes "enrollments_of_student b u = Resp (Some es) None" and "es \<noteq> []"
      and "error_of (classes_in b (map class_id es)) = Some e"
  shows "degraded s e [SelectEnrollmentsOfStudent u, SelectClassesIn (map class_id es)]
           (fetchStudentContacts b u s)"
proof -
  from assms(2) obtain x xs where es: "es = x # xs" by (cases es) auto
  have a: "await_data (classes_in b (map class_id (x # xs))) = Inl e"
    using assms(3) by (simp add: await_data_Inl es)
  show ?thesis
    using a
    by (simp add: degraded_def fetchStudentContacts_def fetchStudentContacts_try_def assms(1) es
      await_data_Resp catch_contacts_def Let_def issue_def setContacts_def
      console_error_def issued_def del: list.map)
qed

lemma student_step3_fails:
  assumes "enrollments_of_student b u = Resp (Some es) None" and "es \<noteq> []"
      and "classes_in b (map class_id es) = Resp cs None"
      and "pids = spread_new_Set (case cs of None \<Rightarrow> [] | Some rows \<Rightarrow> map professional_id rows)"
      and "pids \<noteq> []"
      and "error_of (professionals_in b pids) = Some e"
  shows "degraded s e [SelectEnrollmentsOfStudent u, SelectClassesIn (map class_id es),
            SelectProfessionalsIn pids]
           (fetchStudentContacts b u s)"
proof -
  from assms(2) obtain x xs where es: "es = x # xs" by (cases es) auto
  have c: "await_data (classes_in b (map class_id (x # xs))) = Inr cs"
    using assms(3) by (simp add: await_data_Resp es)
  have a: "await_data (professionals_in b pids) = Inl e"
    using assms(6) by (simp add: await_data_Inl)
  show ?thesis
    using a c assms(5)
    by (simp add: degraded_def fetchStudentContacts_def fetchStudentContacts_try_def assms(1) es
      await_data_Resp catch_contacts_def Let_def issue_def setContacts_def
      console_error_def issued_def assms(4) [symmetric] del: list.map)
qed

lemma professional_step1_fails:
  assumes "error_of (classes_of_professional b u) = Some e"
  shows "degraded s e [SelectClassesOfProfessional u] (fetchProfessionalContacts b u s)"
  using assms
  by (simp add: degraded_def fetchProfessionalContacts_def fetchProfessionalContacts_try_def
      catch_contacts_def await_data_Inl [symmetric] Let_def issue_def setContacts_def
      console_error_def issued_def)

lemma professional_step2_fails:
  assumes "classes_of_professional b u = Resp (Some cs) None" and "cs \<noteq> []"
      and "error_of (enrollments_in b (map cls_id cs)) = Some e"
  shows "degraded s e [SelectClassesOfProfessional u, SelectEnrollmentsIn (map cls_id cs)]
           (fetchProfessionalContacts b u s)"
proof -
  from assms(2) obtain x xs where cs: "cs = x # xs" by (cases cs) auto
  have a: "await_data (enrollments_in b (map cls_id (x # xs))) = Inl e"
    using assms(3) by (simp add: await_data_Inl cs)
  show ?thesis
    using a
    by (simp add: degraded_def fetchProfessionalContacts_def fetchProfessionalContacts_try_def
      assms(1) cs await_data_Resp catch_contacts_def Let_def issue_def setContacts_def
      console_error_def issued_def del: list.map)
qed

lemma professional_step3_fails:
  assumes "classes_of_professional b u = Resp (Some cs) None" and "cs \<noteq> []"
      and "enrollments_in b (map cls_id cs) = Resp es None"
      and "sids = spread_new_Set (case es of None \<Rightarrow> [] | Some rows \<Rightarrow> map student_id rows)"
      and "sids \<noteq> []"
      and "error_of (students_in b sids) = Some e"
  shows "degraded s e [SelectClassesOfProfessional u, SelectEnrollmentsIn (map cls_id cs),
            SelectStudentsIn sids]
           (fetchProfessionalContacts b u s)"
proof -
  from assms(2) obtain x xs where cs: "cs = x # xs" by (cases cs) auto
  have c: "await_data (enrollments_in b (map cls_id (x # xs))) = Inr es"
    using assms(3) by (simp add: await_data_Resp cs)
  have a: "await_data (students_in b sids) = Inl e"
    using assms(6) by (simp add: await_data_Inl)
  show ?thesis
    using a c assms(5)
    by (simp add: degraded_def fetchProfessionalContacts_def fetchProfessionalContacts_try_def
      assms(1) cs await_data_Resp catch_contacts_def Let_def issue_def setContacts_def
      console_error_def issued_def assms(4) [symmetric] del: list.map)
qed

text \<open>
  C4. Either resolver, against any backend, ends normally (no error leaves it) and shows
  no toast. Whenever a step of its lookup chain fails (the call throws, or answers with an
  error), be it the first query, the second after a non-empty first answer, or the third
  after a non-empty set of identities, the contact list it leaves is empty and the
  console has gained exactly one line, which carries that error; the steps after the
  failing one are not issued. The same holds of any failure among the requests the
  resolver issued.
\<close>

theorem resolver_failure_degrades:
  fixes b :: backend and u :: js_string and s :: chat
  defines "st \<equiv> fetchStudentContacts b u s"
  defines "pr \<equiv> fetchProfessionalContacts b u s"
  shows "fst st = Inr () \<and> toasts (snd st) = toasts s
     \<and> ((\<exists>q \<in> set (issued s (snd st)). failure_of b q \<noteq> None) \<longrightarrow>
          contacts (snd st) = []
          \<and> (\<exists>e. failure_of b (last (issued s (snd st))) = Some e
                \<and> console (snd st) = console s @ [(lit ''Erro ao buscar contatos:'', e)]))
     \<and> fst pr = Inr () \<and> toasts (snd pr) = toasts s
     \<and> ((\<exists>q \<in> set (issued s (snd pr)). failure_of b q \<noteq> None) \<longrightarrow>
          contacts (snd pr) = []
          \<and> (\<exists>e. failure_of b (last (issued s (snd pr))) = Some e
                \<and> console (snd pr) = console s @ [(lit ''Erro ao buscar contatos:'', e)]))
     \<and> (error_of (enrollments_of_student b u) = Some e1 \<longrightarrow>
          degraded s e1 [SelectEnrollmentsOfStudent u] st)
     \<and> (enrollments_of_student b u = Resp (Some es2) None \<and> es2 \<noteq> []
          \<and> error_of (classes_in b (map class_id es2)) = Some e2 \<longrightarrow>
          degraded s e2 [SelectEnrollmentsOfStudent u, SelectClassesIn (map class_id es2)] st)
     \<and> (enrollments_of_student b u = Resp (Some es3) None \<and> es3 \<noteq> []
          \<and> classes_in b (map class_id es3) = Resp cs3 None
          \<and> pids = spread_new_Set
               (case cs3 of None \<Rightarrow> [] | Some rows \<Rightarrow> map professional_id rows)
          \<and> pids \<noteq> []
          \<and> error_of (professionals_in b pids) = Some e3 \<longrightarrow>
          degraded s e3 [SelectEnrollmentsOfStudent u, SelectClassesIn (map class_id es3),
            SelectProfessionalsIn pids] st)
     \<and> (error_of (classes_of_professional b u) = Some f1 \<longrightarrow>
          degraded s f1 [SelectClassesOfProfessional u] pr)
     \<and> (classes_of_professional b u = Resp (Some cs5) None \<and> cs5 \<noteq> []
          \<and> error_of (enrollments_in b (map cls_id cs5)) = Some f2 \<longrightarrow>
          degraded s f2 [SelectClassesOfProfessional u, SelectEnrollmentsIn (map cls_id cs5)] pr)
     \<and> (classes_of_professional b u = Resp (Some cs6) None \<and> cs6 \<noteq> []
          \<and> enrollments_in b (map cls_id cs6) = Resp es6 None
          \<and> sids = spread_new_Set
               (case es6 of None \<Rightarrow> [] | Some rows \<Rightarrow> map student_id rows)
          \<and> sids \<noteq> []
          \<and> error_of (students_in b sids) = Some f3 \<longrightarrow>
          degraded s f3 [SelectClassesOfProfessional u, SelectEnrollmentsIn (map cls_id cs6),
            SelectStudentsIn sids] pr)"
proof -
  have old_st: "fst st = Inr () \<and> toasts (snd st) = toasts s
     \<and> ((\<exists>q \<in> set (issued s (snd st)). failure_of b q \<noteq> None) \<longrightarrow>
          contacts (snd st) = []
          \<and> (\<exists>e. failure_of b (last (issued s (snd st))) = Some e
                \<and> console (snd st) = console s @ [(lit ''Erro ao buscar contatos:'', e)]))"
    unfolding st_def fetchStudentContacts_def
    using catch_contacts_degrades [OF student_try_cases, of b u s] by blast
  have old_pr: "fst pr = Inr () \<and> toasts (snd pr) = toasts s
     \<and> ((\<exists>q \<in> set (issued s (snd pr)). failure_of b q \<noteq> None) \<longrightarrow>
          contacts (snd pr) = []
          \<and> (\<exists>e. failure_of b (last (issued s (snd pr))) = Some e
                \<and> console (snd pr) = console s @ [(lit ''Erro ao buscar contatos:'', e)]))"
    unfolding pr_def fetchProfessionalContacts_def
    using catch_contacts_degrades [OF professional_try_cases, of b u s] by blast
  show ?thesis
    unfolding st_def [symmetric] pr_def [symmetric]
    using old_st old_pr
    by (auto simp: st_def pr_def
        intro: student_step1_fails student_step2_fails student_step3_fails
          professional_step1_fails professional_step2_fails professional_step3_fails)
qed

text \<open>
  The lookups of the student \<open>me\<close> and of the professional Ana in the sample database,
  with each table in turn unreadable: every one of the six steps fails once.
\<close>

lemma sample_enrollments_me:
  "enrollments_of_student (store_backend sample_store) (lit ''me'') = Resp (Some [me_K, me_L]) None"
  by (simp add: store_backend_def sample_store_def is_active_def me_K_def me_L_def lit_def)

lemma sample_classes_me:
  "classes_in (store_backend sample_store) (map class_id [me_K, me_L]) =
     Resp (Some [class_K, class_L]) None"
  by (simp add: store_backend_def sample_store_def me_K_def me_L_def class_K_def class_L_def
      lit_def)

lemma sample_owners_me:
  "spread_new_Set (map professional_id [class_K, class_L]) = [lit ''ana'', lit ''bia'']"
  by (simp add: spread_new_Set_def class_K_def class_L_def lit_def)

lemma sample_classes_ana:
  "classes_of_professional (store_backend sample_store) (lit ''ana'') = Resp (Some [class_K]) None"
  by (simp add: store_backend_def sample_store_def class_K_def lit_def)

lemma sample_enrollments_ana:
  "enrollments_in (store_backend sample_store) (map cls_id [class_K]) = Resp (Some [me_K]) None"
  by (simp add: store_backend_def sample_store_def is_active_def me_K_def class_K_def lit_def)

lemma sample_students_ana:
  "spread_new_Set (map student_id [me_K]) = [lit ''me'']"
  by (simp add: spread_new_Set_def me_K_def)

theorem resolver_failure_degrades_witness:
  "contacts sample_chat = [ana, bia]
   \<and> error_of (enrollments_of_student enrollments_down (lit ''me'')) = Some outage
   \<and> degraded sample_chat outage [SelectEnrollmentsOfStudent (lit ''me'')]
        (fetchStudentContacts enrollments_down (lit ''me'') sample_chat)
   \<and> error_of (classes_in classes_down (map class_id [me_K, me_L])) = Some outage
   \<and> degraded sample_chat outage
        [SelectEnrollmentsOfStudent (lit ''me''), SelectClassesIn [lit ''K'', lit ''L'']]
        (fetchStudentContacts classes_down (lit ''me'') sample_chat)
   \<and> error_of (professionals_in profiles_down [lit ''ana'', lit ''bia'']) = Some outage
   \<and> degraded sample_chat outage
        [SelectEnrollmentsOfStudent (lit ''me''), SelectClassesIn [lit ''K'', lit ''L''],
         SelectProfessionalsIn [lit ''ana'', lit ''bia'']]
        (fetchStudentContacts profiles_down (lit ''me'') sample_chat)
   \<and> error_of (classes_of_professional classes_down (lit ''ana'')) = Some outage
   \<and> degraded sample_chat outage [SelectClassesOfProfessional (lit ''ana'')]
        (fetchProfessionalContacts classes_down (lit ''ana'') sample_chat)
   \<and> error_of (enrollments_in enrollments_down (map cls_id [class_K])) = Some outage
   \<and> degraded sample_chat outage
        [SelectClassesOfProfessional (lit ''ana''), SelectEnrollmentsIn [lit ''K'']]
        (fetchProfessionalContacts enrollments_down (lit ''ana'') sample_chat)
   \<and> error_of (students_in profiles_down [lit ''me'']) = Some outage
   \<and> degraded sample_chat outage
        [SelectClassesOfProfessional (lit ''ana''), SelectEnrollmentsIn [lit ''K''],
         SelectStudentsIn [lit ''me'']]
        (fetchProfessionalContacts profiles_down (lit ''ana'') sample_chat)
   \<and> contacts (snd (fetchProfessionalContacts profiles_down (lit ''ana'') sample_chat)) = []
   \<and> console (snd (fetchProfessionalContacts profiles_down (lit ''ana'') sample_chat)) =
        [(lit ''Erro ao buscar contatos:'', outage)]
   \<and> toasts (snd (fetchProfessionalContacts profiles_down (lit ''ana'') sample_chat)) = []"
proof -
  have c0: "contacts sample_chat = [ana, bia] \<and> console sample_chat = []
      \<and> toasts sample_chat = []"
    by (simp add: sample_chat_def initial_chat_def)
  have h1: "error_of (enrollments_of_student enrollments_down (lit ''me'')) = Some outage"
    by (simp add: enrollments_down_def error_of_def)
  have h2a: "enrollments_of_student classes_down (lit ''me'') = Resp (Some [me_K, me_L]) None"
    using sample_enrollments_me by (simp add: classes_down_def store_backend_def)
  have h2: "error_of (classes_in classes_down (map class_id [me_K, me_L])) = Some outage"
    by (simp add: classes_down_def error_of_def)
  have h3a: "enrollments_of_student profiles_down (lit ''me'') = Resp (Some [me_K, me_L]) None"
    using sample_enrollments_me by (simp add: profiles_down_def store_backend_def)
  have h3b: "classes_in profiles_down (map class_id [me_K, me_L]) =
      Resp (Some [class_K, class_L]) None"
    using sample_classes_me by (simp add: profiles_down_def store_backend_def)
  have h3: "error_of (professionals_in profiles_down [lit ''ana'', lit ''bia'']) = Some outage"
    by (simp add: profiles_down_def error_of_def)
  have g1: "error_of (classes_of_professional classes_down (lit ''ana'')) = Some outage"
    by (simp add: classes_down_def error_of_def)
  have g2a: "classes_of_professional enrollments_down (lit ''ana'') = Resp (Some [class_K]) None"
    using sample_classes_ana by (simp add: enrollments_down_def store_backend_def)
  have g2: "error_of (enrollments_in enrollments_down (map cls_id [class_K])) = Some outage"
    by (simp add: enrollments_down_def error_of_def)
  have g3a: "classes_of_professional profiles_down (lit ''ana'') = Resp (Some [class_K]) None"
    using sample_classes_ana by (simp add: profiles_down_def store_backend_def)
  have g3b: "enrollments_in profiles_down (map cls_id [class_K]) = Resp (Some [me_K]) None"
    using sample_enrollments_ana by (simp add: profiles_down_def store_backend_def)
  have g3: "error_of (students_in profiles_down [lit ''me'']) = Some outage"
    by (simp add: profiles_down_def error_of_def)
  have ids: "map class_id [me_K, me_L] = [lit ''K'', lit ''L'']"
      "map cls_id [class_K] = [lit ''K'']"
    by (simp_all add: me_K_def me_L_def class_K_def)
  have ne: "[me_K, me_L] \<noteq> []" "[class_K] \<noteq> []"
      "[lit ''ana'', lit ''bia''] \<noteq> ([] :: js_string list)"
      "[lit ''me''] \<noteq> ([] :: js_string list)"
    by simp_all
  have own: "[lit ''ana'', lit ''bia''] = spread_new_Set
      (case Some [class_K, class_L] of None \<Rightarrow> [] | Some rows \<Rightarrow> map professional_id rows)"
    using sample_owners_me by simp
  have stu: "[lit ''me''] = spread_new_Set
      (case Some [me_K] of None \<Rightarrow> [] | Some rows \<Rightarrow> map student_id rows)"
    using sample_students_ana by simp
  have d1: "degraded sample_chat outage [SelectEnrollmentsOfStudent (lit ''me'')]
        (fetchStudentContacts enrollments_down (lit ''me'') sample_chat)"
    using resolver_failure_degrades [where b = enrollments_down and u = "lit ''me''"
        and s = sample_chat and ?e1.0 = outage] h1
    by blast
  have d2': "degraded sample_chat outage
        [SelectEnrollmentsOfStudent (lit ''me''), SelectClassesIn (map class_id [me_K, me_L])]
        (fetchStudentContacts classes_down (lit ''me'') sample_chat)"
    using resolver_failure_degrades [where b = classes_down and u = "lit ''me''"
        and s = sample_chat and ?es2.0 = "[me_K, me_L]" and ?e2.0 = outage] h2a h2 ne
    by blast
  from d2' have d2: "degraded sample_chat outage
        [SelectEnrollmentsOfStudent (lit ''me''), SelectClassesIn [lit ''K'', lit ''L'']]
        (fetchStudentContacts classes_down (lit ''me'') sample_chat)"
    by (simp only: ids)
  have d3': "degraded sample_chat outage
        [SelectEnrollmentsOfStudent (lit ''me''), SelectClassesIn (map class_id [me_K, me_L]),
         SelectProfessionalsIn [lit ''ana'', lit ''bia'']]
        (fetchStudentContacts profiles_down (lit ''me'') sample_chat)"
    using resolver_failure_degrades [where b = profiles_down and u = "lit ''me''"
        and s = sample_chat and ?es3.0 = "[me_K, me_L]" and ?cs3.0 = "Some [class_K, class_L]"
        and pids = "[lit ''ana'', lit ''bia'']" and ?e3.0 = outage]
      h3a h3b h3 own ne
    by blast
  from d3' have d3: "degraded sample_chat outage
        [SelectEnrollmentsOfStudent (lit ''me''), SelectClassesIn [lit ''K'', lit ''L''],
         SelectProfessionalsIn [lit ''ana'', lit ''bia'']]
        (fetchStudentContacts profiles_down (lit ''me'') sample_chat)"
    by (simp only: ids)
  have p1: "degraded sample_chat outage [SelectClassesOfProfessional (lit ''ana'')]
        (fetchProfessionalContacts classes_down (lit ''ana'') sample_chat)"
    using resolver_failure_degrades [where b = classes_down and u = "lit ''ana''"
        and s = sample_chat and ?f1.0 = outage] g1
    by blast
  have p2': "degraded sample_chat outage
        [SelectClassesOfProfessional (lit ''ana''), SelectEnrollmentsIn (map cls_id [class_K])]
        (fetchProfessionalContacts enrollments_down (lit ''ana'') sample_chat)"
    using resolver_failure_degrades [where b = enrollments_down and u = "lit ''ana''"
        and s = sample_chat and ?cs5.0 = "[class_K]" and ?f2.0 = outage] g2a g2 ne
    by blast
  from p2' have p2: "degraded sample_chat outage
        [SelectClassesOfProfessional (lit ''ana''), SelectEnrollmentsIn [lit ''K'']]
        (fetchProfessionalContacts enrollments_down (lit ''ana'') sample_chat)"
    by (simp only: ids)
  have p3': "degraded sample_chat outage
        [SelectClassesOfProfessional (lit ''ana''), SelectEnrollmentsIn (map cls_id [class_K]),
         SelectStudentsIn [lit ''me'']]
        (fetchProfessionalContacts profiles_down (lit ''ana'') sample_chat)"
    using resolver_failure_degrades [where b = profiles_down and u = "lit ''ana''"
        and s = sample_chat and ?cs6.0 = "[class_K]" and ?es6.0 = "Some [me_K]"
        and sids = "[lit ''me'']" and ?f3.0 = outage]
      g3a g3b g3 stu ne
    by blast
  from p3' have p3: "degraded sample_chat outage
        [SelectClassesOfProfessional (lit ''ana''), SelectEnrollmentsIn [lit ''K''],
         SelectStudentsIn [lit ''me'']]
        (fetchProfessionalContacts profiles_down (lit ''ana'') sample_chat)"
    by (simp only: ids)
  from p3 c0 have p3': "contacts (snd (fetchProfessionalContacts profiles_down (lit ''ana'') sample_chat)) = []
   \<and> console (snd (fetchProfessionalContacts profiles_down (lit ''ana'') sample_chat)) =
        [(lit ''Erro ao buscar contatos:'', outage)]
   \<and> toasts (snd (fetchProfessionalContacts profiles_down (lit ''ana'') sample_chat)) = []"
    by (simp add: degraded_def)
  show ?thesis
    using c0 h1 d1 h2 d2 h3 d3 g1 p1 g2 p2 g3 p3 p3' by simp
qed

lemma student_resolver_ok:
  assumes "enrollments_of_student b u = Resp (Some es) None"
      and "classes_in b (map class_id es) = Resp (Some cs) None"
      and "professionals_in b (spread_new_Set (map professional_id cs)) = Resp (Some ps) None"
  shows "fetchStudentContacts b u s =
     (Inr (),
      s\<lparr>contacts :=
           (if es = [] \<or> spread_new_Set (map professional_id cs) = [] then []
            else map professional_contact ps),
        requests := requests s @
           SelectEnrollmentsOfStudent u #
           (if es = [] then []
            else SelectClassesIn (map class_id es) #
              (if spread_new_Set (map professional_id cs) = [] then []
               else [SelectProfessionalsIn (spread_new_Set (map professional_id cs))]))\<rparr>)"
proof (cases es)
  case Nil
  with assms(1) show ?thesis
    by (simp add: fetchStudentContacts_def fetchStudentContacts_try_def catch_contacts_def
        await_data_def Let_def issue_def setContacts_def)
next
  case (Cons e es')
  show ?thesis
    unfolding fetchStudentContacts_def fetchStudentContacts_try_def assms(1) Cons [symmetric]
    using assms(2,3) Cons
    by (simp add: catch_contacts_def await_data_def Let_def issue_def setContacts_def)
qed

lemma store_backend_simps:
  "enrollments_of_student (store_backend db) u =
     Resp (Some (filter (\<lambda>e. student_id e = u \<and> is_active e) (enrollments db))) None"
  "classes_in (store_backend db) ids =
     Resp (Some (filter (\<lambda>c. cls_id c \<in> set ids) (classes db))) None"
  "professionals_in (store_backend db) ids =
     Resp (Some (filter (\<lambda>p. user_id p \<in> set ids) (professionals db))) None"
  by (simp_all add: store_backend_def)

text \<open>
  C2. Against a database that answers every query, the contacts the student branch
  leaves are, as a set, the profiles (identity, full name, avatar, tagged professional)
  of the professionals who own a class that an active enrollment of the student refers
  to. With no active enrollment the list is empty and the enrollment query is the only
  request issued; with active enrollments but no owner the list is empty and the profile
  query is not issued.
\<close>

theorem student_contacts_are_owner_profiles:
  fixes db :: store and u :: js_string and s :: chat
  defines "s' \<equiv> snd (fetchStudentContacts (store_backend db) u s)"
  defines "active \<equiv> filter (\<lambda>e. student_id e = u \<and> status e = lit ''active'') (enrollments db)"
  defines "owners \<equiv> {professional_id c | c. c \<in> set (classes db) \<and> cls_id c \<in> class_id ` set active}"
  shows "set (contacts s') =
           {\<lparr>contact_id = user_id p, name = full_name p, contact_type = Professional,
             avatar_url = p_avatar_url p\<rparr> | p.
            p \<in> set (professionals db) \<and> user_id p \<in> owners}
       \<and> (active = [] \<longrightarrow> contacts s' = [] \<and> issued s s' = [SelectEnrollmentsOfStudent u])
       \<and> (active \<noteq> [] \<and> owners = {} \<longrightarrow>
            contacts s' = []
            \<and> issued s s' = [SelectEnrollmentsOfStudent u, SelectClassesIn (map class_id active)])"
proof -
  let ?cs = "filter (\<lambda>c. cls_id c \<in> set (map class_id active)) (classes db)"
  let ?pids = "spread_new_Set (map professional_id ?cs)"
  let ?ps = "filter (\<lambda>p. user_id p \<in> set ?pids) (professionals db)"
  have act: "enrollments_of_student (store_backend db) u = Resp (Some active) None"
    by (simp add: store_backend_simps active_def is_active_def)
  have res: "fetchStudentContacts (store_backend db) u s =
     (Inr (),
      s\<lparr>contacts := (if active = [] \<or> ?pids = [] then [] else map professional_contact ?ps),
        requests := requests s @
           SelectEnrollmentsOfStudent u #
           (if active = [] then []
            else SelectClassesIn (map class_id active) #
              (if ?pids = [] then [] else [SelectProfessionalsIn ?pids]))\<rparr>)"
    by (rule student_resolver_ok [OF act]) (simp_all add: store_backend_simps)
  have owners: "set ?pids = owners"
    by (auto simp: set_spread_new_Set owners_def)
  have empty: "(?pids = []) = (owners = {})"
    using owners by (metis set_empty)
  have no_act: "active = [] \<Longrightarrow> owners = {}"
    by (simp add: owners_def)
  have c: "contacts s' = (if active = [] \<or> ?pids = [] then [] else map professional_contact ?ps)"
    by (simp add: s'_def res)
  have i: "issued s s' = SelectEnrollmentsOfStudent u #
           (if active = [] then []
            else SelectClassesIn (map class_id active) #
              (if ?pids = [] then [] else [SelectProfessionalsIn ?pids]))"
    by (simp add: s'_def res issued_def)
  have set_c: "set (contacts s') =
           {\<lparr>contact_id = user_id p, name = full_name p, contact_type = Professional,
             avatar_url = p_avatar_url p\<rparr> | p.
            p \<in> set (professionals db) \<and> user_id p \<in> owners}"
  proof (cases "active = [] \<or> ?pids = []")
    case True
    then have "owners = {}" using no_act empty by blast
    with True show ?thesis by (simp add: c)
  next
    case False
    then have "set (contacts s') = professional_contact ` {p \<in> set (professionals db). user_id p \<in> set ?pids}"
      by (simp only: c if_False set_map set_filter)
    also have "\<dots> = professional_contact ` {p \<in> set (professionals db). user_id p \<in> owners}"
      by (simp only: owners)
    also have "\<dots> = {\<lparr>contact_id = user_id p, name = full_name p, contact_type = Professional,
             avatar_url = p_avatar_url p\<rparr> | p.
            p \<in> set (professionals db) \<and> user_id p \<in> owners}"
      by (auto simp: professional_contact_def)
    finally show ?thesis .
  qed
  show ?thesis
    using set_c c i empty by simp
qed

text \<open>
  The lookups of \<open>me\<close> (Cai, whose class \<open>me\<close> has left, is not a contact), of \<open>bia\<close>
  (no enrollment) and of \<open>zed\<close> (no owner).
\<close>

theorem student_contacts_witness:
  "contacts (snd (fetchStudentContacts (store_backend sample_store) (lit ''me'') sample_chat))
     = [ana, bia]
   \<and> filter (\<lambda>e. student_id e = lit ''bia'' \<and> status e = lit ''active'') (enrollments sample_store)
     = []
   \<and> contacts (snd (fetchStudentContacts (store_backend sample_store) (lit ''bia'') sample_chat))
     = []
   \<and> issued sample_chat
       (snd (fetchStudentContacts (store_backend sample_store) (lit ''bia'') sample_chat))
     = [SelectEnrollmentsOfStudent (lit ''bia'')]
   \<and> filter (\<lambda>e. student_id e = lit ''zed'' \<and> status e = lit ''active'') (enrollments sample_store)
     = [\<lparr>student_id = lit ''zed'', class_id = lit ''Z'', status = lit ''active''\<rparr>]
   \<and> {professional_id c | c. c \<in> set (classes sample_store) \<and> cls_id c \<in> {lit ''Z''}} = {}
   \<and> contacts (snd (fetchStudentContacts (store_backend sample_store) (lit ''zed'') sample_chat))
     = []
   \<and> issued sample_chat
       (snd (fetchStudentContacts (store_backend sample_store) (lit ''zed'') sample_chat))
     = [SelectEnrollmentsOfStudent (lit ''zed''), SelectClassesIn [lit ''Z'']]"
proof -
  have b: "filter (\<lambda>e. student_id e = lit ''bia'' \<and> status e = lit ''active'') (enrollments sample_store)
     = []"
    by (simp add: sample_store_def lit_def)
  have z: "filter (\<lambda>e. student_id e = lit ''zed'' \<and> status e = lit ''active'') (enrollments sample_store)
     = [\<lparr>student_id = lit ''zed'', class_id = lit ''Z'', status = lit ''active''\<rparr>]"
    by (simp add: sample_store_def lit_def)
  have o: "{professional_id c | c. c \<in> set (classes sample_store) \<and> cls_id c \<in> {lit ''Z''}} = {}"
    by (auto simp: sample_store_def lit_def)
  have c: "contacts (snd (fetchStudentContacts (store_backend sample_store) (lit ''me'') sample_chat))
     = [ana, bia]"
    by (simp add: fetchStudentContacts_def fetchStudentContacts_try_def catch_contacts_def
      store_backend_def sample_store_def is_active_def await_data_def spread_new_Set_def
      issue_def setContacts_def professional_contact_def ana_def bia_def Let_def lit_def)
  show ?thesis
    using student_contacts_are_owner_profiles [of sample_store "lit ''bia''" sample_chat]
      student_contacts_are_owner_profiles [of sample_store "lit ''zed''" sample_chat]
      b z o c
    by simp
qed

section \<open>The lifetime of the realtime channel\<close>

lemma effect_returns_no_teardown: "fst (selectedContact_effect b s) = None"
  by (simp add: selectedContact_effect_def Let_def split: option.splits)

lemma setSelectedContact_teardown:
  "teardown scr = None \<Longrightarrow> teardown (setSelectedContact b c scr) = None"
  by (simp add: setSelectedContact_def Let_def effect_returns_no_teardown)

text \<open>
  C1. The channel opened for the previously selected contact should be closed whenever
  the selection changes and when the screen unmounts, so that at most one subscription
  is live. \<open>subscribeToMessages\<close> builds the teardown for that, but the effect does not
  return it, so it is never run: after selecting Ana and then Bia, the screen of \<open>me\<close>
  holds two open channels, has no teardown to run, keeps both channels on unmount, and a
  message from the deselected Ana is appended to the list shown for Bia.
\<close>

theorem stale_subscription_survives:
  "selectedContact (ui after_ana_bia) = Some bia
   \<and> map filter_sender_id (channels (ui after_ana_bia)) = [lit ''ana'', lit ''bia'']
   \<and> teardown after_ana_bia = None
   \<and> channels (ui (unmount after_ana_bia)) = channels (ui after_ana_bia)
   \<and> messages (ui after_ana_bia) = [msg_bia_3]
   \<and> messages (realtime_insert msg_ana_2 (ui after_ana_bia)) = [msg_bia_3, msg_ana_2]"
  by (simp add: after_ana_bia_def sample_screen_def setSelectedContact_def
      selectedContact_effect_def run_cleanup_def unmount_def
      subscribeToMessages_def realtime_insert_def deliver_def on_insert_def setMessages_def
      fetchMessages_def store_backend_def sample_store_def between_def
      sample_chat_def initial_chat_def ana_def bia_def msg_ana_2_def msg_me_1_def msg_bia_3_def
      issue_def lit_def Let_def)

end
